theory Spec2Isabelle
  imports Complex_Main
begin

section \<open>Strings\<close>

text \<open>
  Python strings are modelled as byte strings. \<open>str.upper()\<close> maps the ASCII letters
  \<open>a\<close> to \<open>z\<close> to \<open>A\<close> to \<open>Z\<close> and leaves every other byte alone.
\<close>

definition upper_char :: "char \<Rightarrow> char" where
  "upper_char c =
     (case map_of (zip ''abcdefghijklmnopqrstuvwxyz'' ''ABCDEFGHIJKLMNOPQRSTUVWXYZ'') c of
        Some u \<Rightarrow> u
      | None \<Rightarrow> c)"

definition upper :: "string \<Rightarrow> string" where
  "upper s = map upper_char s"

section \<open>The persisted signal (database/models.py, class Signal)\<close>

text \<open>
  One row of the table \<open>signals\<close>. Prices are \<open>Numeric\<close> columns, read back as exact
  decimals; they are modelled as reals. A nullable column is an \<open>option\<close>. The columns
  \<open>ticker\<close>, \<open>timeframe\<close>, \<open>signal_type\<close> and \<open>entry_price\<close> are declared
  \<open>nullable=False\<close>. The primary key \<open>id\<close> is called \<open>signal_id\<close> here.
  Times are microseconds since the epoch.
\<close>

record signal =
  signal_id :: nat
  ticker :: string
  timeframe :: string
  signal_type :: string
  entry_price :: real
  take_profit :: "real option"
  stop_loss :: "real option"
  confidence :: "real option"
  risk_reward :: "real option"
  current_price :: "real option"
  status :: string
  is_main_signal :: bool
  correction_type :: "string option"
  correction_entry :: "real option"
  correction_tp :: "real option"
  correction_sl :: "real option"
  correction_confidence :: "real option"
  created_at :: int

section \<open>Execution state machine (signal_analyzer/validator.py, SignalValidator)\<close>

text \<open>
  \<open>float(x) if x else None\<close> on a nullable numeric column: Python's truth test makes a
  stored zero count as absent, exactly like \<open>NULL\<close>.
\<close>

definition float_if_truthy :: "real option \<Rightarrow> real option" where
  "float_if_truthy x = (case x of None \<Rightarrow> None | Some v \<Rightarrow> if v = 0 then None else Some v)"

definition check_entry_execution :: "string \<Rightarrow> real \<Rightarrow> real \<Rightarrow> bool" where
  "check_entry_execution stype price entry =
     (if stype = ''LONG'' then price \<le> entry
      else if stype = ''SHORT'' then price \<ge> entry
      else False)"

definition check_take_profit_execution :: "string \<Rightarrow> real \<Rightarrow> real \<Rightarrow> bool" where
  "check_take_profit_execution stype price tp =
     (if stype = ''LONG'' then price \<ge> tp
      else if stype = ''SHORT'' then price \<le> tp
      else False)"

definition check_stop_loss_execution :: "string \<Rightarrow> real \<Rightarrow> real \<Rightarrow> bool" where
  "check_stop_loss_execution stype price sl =
     (if stype = ''LONG'' then price \<le> sl
      else if stype = ''SHORT'' then price \<ge> sl
      else False)"

text \<open>
  \<open>_check_signal_execution(signal, current_price)\<close>. The local \<open>stop_hit\<close> and
  \<open>take_hit\<close> start as \<open>False\<close> and are computed only under \<open>if stop_loss:\<close> and
  \<open>if take_profit:\<close>.
\<close>

definition check_signal_execution :: "signal \<Rightarrow> real \<Rightarrow> string" where
  "check_signal_execution s price =
     (let entry = entry_price s;
          stype = upper (signal_type s);
          tp = float_if_truthy (take_profit s);
          sl = float_if_truthy (stop_loss s)
      in if status s = ''new'' then
           (if check_entry_execution stype price entry then ''entry_hit'' else ''new'')
         else if status s = ''entry_hit'' \<or> status s = ''active'' then
           (let stop_hit = (case sl of None \<Rightarrow> False
                            | Some v \<Rightarrow> if v = 0 then False
                                       else check_stop_loss_execution stype price v);
                take_hit = (case tp of None \<Rightarrow> False
                            | Some v \<Rightarrow> if v = 0 then False
                                       else check_take_profit_execution stype price v)
            in if stop_hit then ''sl_hit''
               else if take_hit then ''tp_hit''
               else ''active'')
         else status s)"

subsection \<open>The conditions in the words of the specification\<close>

text \<open>
  The direction of a signal as the state machine reads it, and the two exit conditions
  as the specification words them: a threshold that is present and is crossed.
\<close>

definition is_long :: "signal \<Rightarrow> bool" where
  "is_long s = (upper (signal_type s) = ''LONG'')"

definition is_short :: "signal \<Rightarrow> bool" where
  "is_short s = (upper (signal_type s) = ''SHORT'')"

definition stop_loss_condition :: "signal \<Rightarrow> real \<Rightarrow> bool" where
  "stop_loss_condition s price =
     (case stop_loss s of None \<Rightarrow> False
      | Some sl \<Rightarrow> (is_long s \<and> price \<le> sl) \<or> (is_short s \<and> price \<ge> sl))"

definition take_profit_condition :: "signal \<Rightarrow> real \<Rightarrow> bool" where
  "take_profit_condition s price =
     (case take_profit s of None \<Rightarrow> False
      | Some tp \<Rightarrow> (is_long s \<and> price \<ge> tp) \<or> (is_short s \<and> price \<le> tp))"

text \<open>The same conditions with a zero threshold counted as absent, as the code does.\<close>

definition stop_fires :: "signal \<Rightarrow> real \<Rightarrow> bool" where
  "stop_fires s price =
     (case stop_loss s of None \<Rightarrow> False
      | Some sl \<Rightarrow> sl \<noteq> 0 \<and> ((is_long s \<and> price \<le> sl) \<or> (is_short s \<and> price \<ge> sl)))"

definition take_fires :: "signal \<Rightarrow> real \<Rightarrow> bool" where
  "take_fires s price =
     (case take_profit s of None \<Rightarrow> False
      | Some tp \<Rightarrow> tp \<noteq> 0 \<and> ((is_long s \<and> price \<ge> tp) \<or> (is_short s \<and> price \<le> tp)))"

text \<open>The forward order of the states: \<open>new\<close>, \<open>entry_hit\<close>, \<open>active\<close>, then the two exits.\<close>

definition status_rank :: "string \<Rightarrow> nat" where
  "status_rank st =
     (if st = ''new'' then 0
      else if st = ''entry_hit'' then 1
      else if st = ''active'' then 2
      else 3)"

text \<open>A sample row: a LONG on BTC, entry 100, take-profit 110, stop-loss 90.\<close>

definition sample_long :: signal where
  "sample_long =
     \<lparr>signal_id = 1, ticker = ''BTC'', timeframe = ''1h'', signal_type = ''LONG'',
      entry_price = 100, take_profit = Some 110, stop_loss = Some 90,
      confidence = Some 80, risk_reward = None, current_price = Some 100,
      status = ''new'', is_main_signal = True,
      correction_type = None, correction_entry = None, correction_tp = None,
      correction_sl = None, correction_confidence = None, created_at = 0\<rparr>"

section \<open>Parsed observations and the confidence annotator (validator.py, ConfidenceAnalyzer)\<close>

text \<open>
  A warning is the dict with the keys \<open>type\<close>, \<open>message\<close> and \<open>severity\<close>. The message
  is a formatted text that interpolates the confidence; it is kept as a constructor
  carrying that number.
\<close>

datatype warning_message = High_confidence_message real | Low_confidence_message real
  | Trend_conflict_message

record warning =
  wtype :: string
  message :: warning_message
  severity :: string

text \<open>
  The \<open>correction\<close> payload read by the upsert engine: a non-empty dict with the keys
  \<open>direction\<close>, \<open>entry\<close>, \<open>tp\<close> (a list), \<open>sl\<close> and \<open>confidence\<close>, each of which may
  be missing.
\<close>

record correction =
  c_direction :: "string option"
  c_entry :: "real option"
  c_tp :: "real list option"
  c_sl :: "real option"
  c_confidence :: "real option"

text \<open>
  An observation is the dict built by \<open>_parse_single_signal\<close> (keys \<open>ticker\<close> to
  \<open>created_at\<close>), with the keys added or read later: \<open>signal_category\<close>, \<open>correction\<close>
  (absent, \<open>None\<close> or an empty dict are all \<open>None\<close> here) and \<open>warnings\<close>.
\<close>

record observation =
  o_ticker :: string
  o_timeframe :: string
  o_signal_type :: string
  o_entry_price :: real
  o_take_profit :: "real option"
  o_stop_loss :: "real option"
  o_confidence :: "real option"
  o_risk_reward :: "real option"
  o_current_price :: real
  o_status :: string
  o_created_at :: int
  o_signal_category :: "string option"
  o_correction :: "correction option"
  o_warnings :: "warning list option"

text \<open>
  \<open>_check_trend_conflict\<close> reads \<open>signal.get('confidence', 0)\<close>: the key is present in
  every observation, so a confidence of \<open>None\<close> is returned as such and the comparison
  with \<open>95.0\<close> raises \<open>TypeError\<close>.
\<close>

datatype py_exception = TypeError

definition HIGH_CONFIDENCE_THRESHOLD :: real where
  "HIGH_CONFIDENCE_THRESHOLD = 90"

definition LOW_CONFIDENCE_THRESHOLD :: real where
  "LOW_CONFIDENCE_THRESHOLD = 50"

definition check_trend_conflict :: "observation \<Rightarrow> py_exception + warning option" where
  "check_trend_conflict ob =
     (case o_confidence ob of
        None \<Rightarrow> Inl TypeError
      | Some c \<Rightarrow>
          if c > 95
          then Inr (Some \<lparr>wtype = ''potential_trend_conflict'',
                          message = Trend_conflict_message, severity = ''warning''\<rparr>)
          else Inr None)"

text \<open>The body of the loop of \<open>analyze_confidence_warnings\<close>, for one signal.\<close>

definition analyze_signal :: "observation \<Rightarrow> py_exception + observation" where
  "analyze_signal ob =
     (case o_confidence ob of
        None \<Rightarrow> Inr (ob\<lparr>o_warnings := Some []\<rparr>)
      | Some c \<Rightarrow>
          (let warnings =
                 (if c \<ge> HIGH_CONFIDENCE_THRESHOLD
                  then [\<lparr>wtype = ''high_confidence'',
                         message = High_confidence_message c, severity = ''warning''\<rparr>]
                  else if c < LOW_CONFIDENCE_THRESHOLD
                  then [\<lparr>wtype = ''low_confidence'',
                         message = Low_confidence_message c, severity = ''info''\<rparr>]
                  else [])
           in case check_trend_conflict ob of
                Inl e \<Rightarrow> Inl e
              | Inr None \<Rightarrow> Inr (ob\<lparr>o_warnings := Some warnings\<rparr>)
              | Inr (Some w) \<Rightarrow> Inr (ob\<lparr>o_warnings := Some (warnings @ [w])\<rparr>)))"

fun analyze_confidence_warnings :: "observation list \<Rightarrow> py_exception + observation list" where
  "analyze_confidence_warnings [] = Inr []"
| "analyze_confidence_warnings (ob # obs) =
     (case analyze_signal ob of
        Inl e \<Rightarrow> Inl e
      | Inr a \<Rightarrow>
          (case analyze_confidence_warnings obs of
             Inl e \<Rightarrow> Inl e
           | Inr as \<Rightarrow> Inr (a # as)))"

text \<open>
  The warning types attached to an observation, and the types the specification
  prescribes for a confidence.
\<close>

definition warning_types :: "observation \<Rightarrow> string list" where
  "warning_types ob = (case o_warnings ob of None \<Rightarrow> [] | Some ws \<Rightarrow> map wtype ws)"

definition expected_warning_types :: "real option \<Rightarrow> string list" where
  "expected_warning_types conf =
     (case conf of
        None \<Rightarrow> []
      | Some c \<Rightarrow> (if c \<ge> 90 then [''high_confidence''] else [])
                 @ (if c < 50 then [''low_confidence''] else [])
                 @ (if c > 95 then [''potential_trend_conflict''] else []))"

text \<open>
  \<open>annotated ob a\<close>: \<open>a\<close> is \<open>ob\<close> with nothing changed but a \<open>warnings\<close> list of the
  prescribed types.
\<close>

definition annotated :: "observation \<Rightarrow> observation \<Rightarrow> bool" where
  "annotated ob a =
     (a = ob\<lparr>o_warnings := o_warnings a\<rparr>
      \<and> o_warnings a \<noteq> None
      \<and> warning_types a = expected_warning_types (o_confidence ob))"

text \<open>A sample observation: AVAX, LONG, entry 20, take-profit 22, stop-loss 19, confidence 91.\<close>

definition sample_observation :: observation where
  "sample_observation =
     \<lparr>o_ticker = ''AVAX'', o_timeframe = ''1h'', o_signal_type = ''LONG'',
      o_entry_price = 20, o_take_profit = Some 22, o_stop_loss = Some 19,
      o_confidence = Some 91, o_risk_reward = None, o_current_price = 20,
      o_status = ''new'', o_created_at = 0, o_signal_category = Some ''main'',
      o_correction = None, o_warnings = None\<rparr>"

section \<open>Scheduler and run ledger (scheduler/tasks.py, SignalScheduler)\<close>

text \<open>
  The dict returned by \<open>SignalManager.fetch_and_process_all_signals\<close>, one full cycle.
  The cycle itself works on the store and the network; the scheduler only sees whether
  it returns or raises, so its outcome is an input of the model.
\<close>

record cycle_results =
  tickers_total :: nat
  tickers_processed :: nat
  api_errors :: nat
  signals_saved :: nat
  signals_updated :: nat
  warnings_found :: nat
  processing_time :: real
  entry_hits :: nat
  take_profit_hits :: nat
  stop_loss_hits :: nat

datatype cycle_outcome = Cycle_returns cycle_results | Cycle_raises string

text \<open>
  \<open>last_run_result\<close>: on success the start time, the end time, the duration and the
  results; on failure the start time, the end time and the error text.
\<close>

datatype run_result =
    Run_success int int real cycle_results
  | Run_failure int int string

text \<open>
  The fields of \<open>SignalScheduler\<close> (\<open>signal_manager\<close> and the never assigned
  \<open>current_job\<close> apart). \<open>job_thread\<close> is \<open>None\<close> before the first job, and otherwise
  \<open>Some b\<close> where \<open>b\<close> is what \<open>is_alive()\<close> answers. Two counters are added that the
  code does not have: \<open>scheduled_cycles\<close> counts the calls of
  \<open>fetch_and_process_all_signals\<close> made by \<open>_execute_signal_processing\<close>, and
  \<open>manual_cycles\<close> those made by \<open>run_manual\<close>.
\<close>

record scheduler =
  is_running :: bool
  shutdown_requested :: bool
  job_thread :: "bool option"
  last_run_time :: "int option"
  last_run_result :: "run_result option"
  total_runs :: nat
  successful_runs :: nat
  failed_runs :: nat
  scheduled_cycles :: nat
  manual_cycles :: nat

definition initial_scheduler :: scheduler where
  "initial_scheduler =
     \<lparr>is_running = False, shutdown_requested = False, job_thread = None,
      last_run_time = None, last_run_result = None,
      total_runs = 0, successful_runs = 0, failed_runs = 0,
      scheduled_cycles = 0, manual_cycles = 0\<rparr>"

text \<open>The guard \<open>self.job_thread and self.job_thread.is_alive()\<close>.\<close>

definition job_thread_alive :: "scheduler \<Rightarrow> bool" where
  "job_thread_alive s = (job_thread s = Some True)"

text \<open>
  \<open>_execute_signal_processing\<close>, with the clock readings \<open>job_start\<close> and \<open>job_end\<close> and
  the outcome of the cycle as inputs.
\<close>

definition execute_signal_processing ::
  "int \<Rightarrow> cycle_outcome \<Rightarrow> int \<Rightarrow> scheduler \<Rightarrow> scheduler" where
  "execute_signal_processing job_start outcome job_end s =
     (let s1 = s\<lparr>last_run_time := Some job_start, total_runs := total_runs s + 1\<rparr>;
          s2 = s1\<lparr>scheduled_cycles := scheduled_cycles s1 + 1\<rparr>
      in case outcome of
           Cycle_returns results \<Rightarrow>
             s2\<lparr>last_run_result :=
                   Some (Run_success job_start job_end (processing_time results) results),
                 successful_runs := successful_runs s2 + 1\<rparr>
         | Cycle_raises e \<Rightarrow>
             s2\<lparr>last_run_result := Some (Run_failure job_start job_end e),
                 failed_runs := failed_runs s2 + 1\<rparr>)"

text \<open>
  \<open>_run_signal_processing_job\<close>: skip while the previous job is alive, else start a
  thread. The thread runs \<open>_execute_signal_processing\<close> to its end, after which
  \<open>is_alive()\<close> is false: \<open>job_thread_target\<close>.
\<close>

definition run_signal_processing_job :: "scheduler \<Rightarrow> scheduler" where
  "run_signal_processing_job s =
     (if job_thread_alive s then s else s\<lparr>job_thread := Some True\<rparr>)"

definition job_thread_target ::
  "int \<Rightarrow> cycle_outcome \<Rightarrow> int \<Rightarrow> scheduler \<Rightarrow> scheduler" where
  "job_thread_target job_start outcome job_end s =
     (execute_signal_processing job_start outcome job_end s)\<lparr>job_thread := Some False\<rparr>"

text \<open>
  \<open>run_manual\<close> returns \<open>{'success': True, 'results': ...}\<close> or
  \<open>{'success': False, 'error': ...}\<close>. \<open>Already_running\<close> stands for the fixed text of the
  guard, which says that another task is already being executed.
\<close>

datatype error_text = Already_running | Exception_text string

datatype manual_result = Manual_success cycle_results | Manual_failure error_text

definition run_manual :: "cycle_outcome \<Rightarrow> scheduler \<Rightarrow> scheduler \<times> manual_result" where
  "run_manual outcome s =
     (if job_thread_alive s then (s, Manual_failure Already_running)
      else case outcome of
             Cycle_returns results \<Rightarrow>
               (s\<lparr>manual_cycles := manual_cycles s + 1\<rparr>, Manual_success results)
           | Cycle_raises e \<Rightarrow>
               (s\<lparr>manual_cycles := manual_cycles s + 1\<rparr>, Manual_failure (Exception_text e)))"

text \<open>
  \<open>get_status\<close>. The next scheduled time comes from the scheduling library and is an
  input; times are returned as they are, not as ISO text.
\<close>

record status_snapshot =
  st_is_running :: bool
  st_total_runs :: nat
  st_successful_runs :: nat
  st_failed_runs :: nat
  st_success_rate :: real
  st_last_run_time :: "int option"
  st_last_run_success :: "bool option"
  st_next_run_time :: "int option"

definition get_status :: "int option \<Rightarrow> scheduler \<Rightarrow> status_snapshot" where
  "get_status next_run s =
     \<lparr>st_is_running = is_running s,
      st_total_runs = total_runs s,
      st_successful_runs = successful_runs s,
      st_failed_runs = failed_runs s,
      st_success_rate =
        (if total_runs s > 0 then (real (successful_runs s) / real (total_runs s)) * 100 else 0),
      st_last_run_time = last_run_time s,
      st_last_run_success =
        (case last_run_result s of
           None \<Rightarrow> None
         | Some (Run_success a b d r) \<Rightarrow> Some True
         | Some (Run_failure a b e) \<Rightarrow> Some False),
      st_next_run_time = next_run\<rparr>"

text \<open>
  What can happen to a scheduler: the schedule fires, the running job thread executes
  its target, or somebody calls \<open>run_manual\<close>.
\<close>

datatype event =
    Scheduled_trigger
  | Job_thread_runs int cycle_outcome int
  | Manual_run cycle_outcome

fun step :: "scheduler \<Rightarrow> event \<Rightarrow> scheduler" where
  "step s Scheduled_trigger = run_signal_processing_job s"
| "step s (Job_thread_runs job_start outcome job_end) =
     (if job_thread_alive s then job_thread_target job_start outcome job_end s else s)"
| "step s (Manual_run outcome) = fst (run_manual outcome s)"

definition run_events :: "event list \<Rightarrow> scheduler \<Rightarrow> scheduler" where
  "run_events evs s = foldl step s evs"

definition sample_results :: cycle_results where
  "sample_results =
     \<lparr>tickers_total = 1, tickers_processed = 1, api_errors = 0, signals_saved = 1,
      signals_updated = 0, warnings_found = 0, processing_time = 2,
      entry_hits = 0, take_profit_hits = 0, stop_loss_hits = 0\<rparr>"

section \<open>Deduplication and upsert engine (signal_analyzer/processor.py, SignalProcessor)\<close>

text \<open>
  The freshness window, \<open>timedelta(minutes=30)\<close>, in microseconds. The clock reading
  \<open>now\<close> of \<open>datetime.utcnow()\<close> is an input, taken once for a batch.
\<close>

definition thirty_minutes :: int where
  "thirty_minutes = 30 * 60 * 1000000"

text \<open>
  The store as the session sees it: the rows of \<open>signals\<close> in the order a query returns
  them, and the rows of \<open>error_logs\<close>. The message logged for a failed signal is a
  formatted text naming the ticker and the timeframe; it is kept as a constructor
  carrying both.
\<close>

datatype error_message = Signal_error_message string string

record error_log =
  el_source :: string
  el_message :: error_message

record store =
  signals :: "signal list"
  error_logs :: "error_log list"

text \<open>
  The only calls inside the per-signal \<open>try\<close> block of \<open>save_signals_batch\<close> that can
  raise into its handler are those of \<open>_find_existing_signal\<close>: \<open>_update_existing_signal\<close>
  and \<open>_create_new_signal\<close> catch every exception themselves. Whether the store raises
  on the lookup for an observation is an input of the model, the predicate \<open>raises\<close>.
  So is whether the store rejects the insert of a row, the predicate \<open>rejects\<close>: then
  \<open>session.flush()\<close> raises inside \<open>_create_new_signal\<close>, which logs and returns
  \<open>None\<close>. What the session library does with its transaction after a failed flush, and
  a failure of the final commit, are not modelled.
\<close>

datatype store_exception = Store_exception

text \<open>
  The filter of the query in \<open>_find_existing_signal\<close>: same ticker, same timeframe,
  \<open>created_at\<close> not before \<open>now\<close> minus 30 minutes, status one of \<open>new\<close>,
  \<open>entry_hit\<close>, \<open>active\<close>. \<open>signal_category\<close> is read and not used.
  \<open>.first()\<close> takes the first row the query returns.
\<close>

definition fresh_match :: "int \<Rightarrow> observation \<Rightarrow> signal \<Rightarrow> bool" where
  "fresh_match now ob r =
     (ticker r = o_ticker ob
      \<and> timeframe r = o_timeframe ob
      \<and> created_at r \<ge> now - thirty_minutes
      \<and> status r \<in> set [''new'', ''entry_hit'', ''active''])"

definition find_existing_signal ::
  "(observation \<Rightarrow> bool) \<Rightarrow> int \<Rightarrow> store \<Rightarrow> observation \<Rightarrow> store_exception + signal option" where
  "find_existing_signal raises now st ob =
     (if raises ob then Inl Store_exception
      else Inr (find (fresh_match now ob) (signals st)))"

text \<open>
  \<open>_update_existing_signal\<close>, block by block. Each block takes the row and the flag
  \<open>updated\<close> and returns both. \<open>if new_current_price and ...\<close> is a truth test, so a
  zero price or confidence updates nothing.

  The observation carries Python floats; the row carries what the session holds for the
  column: the \<open>Decimal\<close> read from the \<open>Numeric\<close> column, or the float assigned earlier
  in the same session. Python's \<open>!=\<close> between a float and a \<open>Decimal\<close> compares the two
  exact values, and so does the inequality of reals here: the float written \<open>19.8\<close> is
  the real \<open>float_19_8\<close> below, which differs from the stored \<open>19.80000000\<close>. The
  assignment puts the float into the row; \<open>next_session\<close> below is what a later session
  reads back.
\<close>

definition update_current_price :: "observation \<Rightarrow> signal \<times> bool \<Rightarrow> signal \<times> bool" where
  "update_current_price ob = (\<lambda>(existing, updated).
     (let new_current_price = o_current_price ob
      in if new_current_price \<noteq> 0 \<and> Some new_current_price \<noteq> current_price existing
         then (existing\<lparr>current_price := Some new_current_price\<rparr>, True)
         else (existing, updated)))"

definition update_confidence :: "observation \<Rightarrow> signal \<times> bool \<Rightarrow> signal \<times> bool" where
  "update_confidence ob = (\<lambda>(existing, updated).
     (case o_confidence ob of
        None \<Rightarrow> (existing, updated)
      | Some new_confidence \<Rightarrow>
          if new_confidence \<noteq> 0 \<and> Some new_confidence \<noteq> confidence existing
          then (existing\<lparr>confidence := Some new_confidence\<rparr>, True)
          else (existing, updated)))"

text \<open>
  The blocks under \<open>if correction_data:\<close>. The take-profit block runs only when the
  list \<open>tp\<close> is present and not empty, and takes its first element.
\<close>

definition update_correction_type :: "correction \<Rightarrow> signal \<times> bool \<Rightarrow> signal \<times> bool" where
  "update_correction_type cd = (\<lambda>(existing, updated).
     if c_direction cd \<noteq> correction_type existing
     then (existing\<lparr>correction_type := c_direction cd\<rparr>, True)
     else (existing, updated))"

definition update_correction_entry :: "correction \<Rightarrow> signal \<times> bool \<Rightarrow> signal \<times> bool" where
  "update_correction_entry cd = (\<lambda>(existing, updated).
     if c_entry cd \<noteq> correction_entry existing
     then (existing\<lparr>correction_entry := c_entry cd\<rparr>, True)
     else (existing, updated))"

definition update_correction_tp :: "correction \<Rightarrow> signal \<times> bool \<Rightarrow> signal \<times> bool" where
  "update_correction_tp cd = (\<lambda>(existing, updated).
     (case c_tp cd of
        Some (new_tp # rest) \<Rightarrow>
          if Some new_tp \<noteq> correction_tp existing
          then (existing\<lparr>correction_tp := Some new_tp\<rparr>, True)
          else (existing, updated)
      | _ \<Rightarrow> (existing, updated)))"

definition update_correction_sl :: "correction \<Rightarrow> signal \<times> bool \<Rightarrow> signal \<times> bool" where
  "update_correction_sl cd = (\<lambda>(existing, updated).
     if c_sl cd \<noteq> correction_sl existing
     then (existing\<lparr>correction_sl := c_sl cd\<rparr>, True)
     else (existing, updated))"

definition update_correction_confidence :: "correction \<Rightarrow> signal \<times> bool \<Rightarrow> signal \<times> bool" where
  "update_correction_confidence cd = (\<lambda>(existing, updated).
     if c_confidence cd \<noteq> correction_confidence existing
     then (existing\<lparr>correction_confidence := c_confidence cd\<rparr>, True)
     else (existing, updated))"

definition update_existing_signal :: "signal \<Rightarrow> observation \<Rightarrow> signal \<times> bool" where
  "update_existing_signal existing ob =
     (let a = update_confidence ob (update_current_price ob (existing, False))
      in case o_correction ob of
           None \<Rightarrow> a
         | Some cd \<Rightarrow>
             update_correction_confidence cd
               (update_correction_sl cd
                 (update_correction_tp cd
                   (update_correction_entry cd
                     (update_correction_type cd a)))))"

text \<open>
  \<open>_create_new_signal\<close>. \<open>new_signal_row\<close> is the row \<open>Signal(**create_data)\<close>: the keys
  whose value is \<open>None\<close> are dropped from the keyword arguments, which leaves those
  columns \<open>NULL\<close>; \<open>id\<close> is assigned by the store (the next free number) and
  \<open>created_at\<close> defaults to the time of the insert. \<open>SignalCRUD.create_signal\<close> adds the
  row and flushes; when the store rejects it the exception is caught, nothing is added
  and the function returns \<open>None\<close>.
\<close>

definition next_signal_id :: "signal list \<Rightarrow> nat" where
  "next_signal_id rows = Suc (foldr max (map signal_id rows) 0)"

definition new_signal_row :: "int \<Rightarrow> store \<Rightarrow> observation \<Rightarrow> signal" where
  "new_signal_row now st ob =
     (let correction_data = o_correction ob
      in \<lparr>signal_id = next_signal_id (signals st),
          ticker = o_ticker ob,
          timeframe = o_timeframe ob,
          signal_type = o_signal_type ob,
          entry_price = o_entry_price ob,
          take_profit = o_take_profit ob,
          stop_loss = o_stop_loss ob,
          confidence = o_confidence ob,
          risk_reward = o_risk_reward ob,
          current_price = Some (o_current_price ob),
          status = ''new'',
          is_main_signal = True,
          correction_type = (case correction_data of None \<Rightarrow> None | Some cd \<Rightarrow> c_direction cd),
          correction_entry = (case correction_data of None \<Rightarrow> None | Some cd \<Rightarrow> c_entry cd),
          correction_tp =
            (case correction_data of
               None \<Rightarrow> None
             | Some cd \<Rightarrow> (case c_tp cd of Some (t # rest) \<Rightarrow> Some t | _ \<Rightarrow> None)),
          correction_sl = (case correction_data of None \<Rightarrow> None | Some cd \<Rightarrow> c_sl cd),
          correction_confidence =
            (case correction_data of None \<Rightarrow> None | Some cd \<Rightarrow> c_confidence cd),
          created_at = now\<rparr>)"

definition create_new_signal ::
  "(signal \<Rightarrow> bool) \<Rightarrow> int \<Rightarrow> store \<Rightarrow> observation \<Rightarrow> store \<times> signal option" where
  "create_new_signal rejects now st ob =
     (let new_signal = new_signal_row now st ob
      in if rejects new_signal then (st, None)
         else (st\<lparr>signals := signals st @ [new_signal]\<rparr>, Some new_signal))"

text \<open>
  The row returned by the query is an object of the session and is changed in place:
  in the list of rows, the first one that satisfies the filter is replaced.
\<close>

fun update_first :: "('a \<Rightarrow> bool) \<Rightarrow> ('a \<Rightarrow> 'a) \<Rightarrow> 'a list \<Rightarrow> 'a list" where
  "update_first P f [] = []"
| "update_first P f (x # xs) = (if P x then f x # xs else x # update_first P f xs)"

text \<open>
  The counts returned by \<open>save_signals_batch\<close>; the key \<open>tickers_processed\<close> is called
  \<open>batch_tickers_processed\<close> here.
\<close>

record batch_results =
  total_signals :: nat
  saved_signals :: nat
  updated_signals :: nat
  errors :: nat
  batch_tickers_processed :: nat

text \<open>
  The body of the inner loop of \<open>save_signals_batch\<close>, for one observation of the
  ticker \<open>tk\<close>.
\<close>

definition save_signal ::
  "(observation \<Rightarrow> bool) \<Rightarrow> (signal \<Rightarrow> bool) \<Rightarrow> int \<Rightarrow> string
     \<Rightarrow> store \<times> batch_results \<Rightarrow> observation \<Rightarrow> store \<times> batch_results" where
  "save_signal raises rejects now tk = (\<lambda>(st, results) signal_data.
     (let results = results\<lparr>total_signals := total_signals results + 1\<rparr>
      in case find_existing_signal raises now st signal_data of
           Inl e \<Rightarrow>
             (st\<lparr>error_logs := error_logs st @
                  [\<lparr>el_source = ''SignalProcessor'',
                    el_message = Signal_error_message tk (o_timeframe signal_data)\<rparr>]\<rparr>,
              results\<lparr>errors := errors results + 1\<rparr>)
         | Inr (Some existing_signal) \<Rightarrow>
             (let (changed, updated) = update_existing_signal existing_signal signal_data;
                  st' = st\<lparr>signals := update_first (fresh_match now signal_data)
                                          (\<lambda>r. changed) (signals st)\<rparr>
              in if updated
                 then (st', results\<lparr>updated_signals := updated_signals results + 1\<rparr>)
                 else (st', results))
         | Inr None \<Rightarrow>
             (case create_new_signal rejects now st signal_data of
                (st', Some new_signal) \<Rightarrow>
                  (st', results\<lparr>saved_signals := saved_signals results + 1\<rparr>)
              | (st', None) \<Rightarrow> (st', results))))"

text \<open>
  The body of the outer loop: a ticker with an empty list is skipped.
\<close>

definition save_ticker_signals ::
  "(observation \<Rightarrow> bool) \<Rightarrow> (signal \<Rightarrow> bool) \<Rightarrow> int \<Rightarrow> store \<times> batch_results
     \<Rightarrow> string \<times> observation list \<Rightarrow> store \<times> batch_results" where
  "save_ticker_signals raises rejects now = (\<lambda>(st, results) (tk, signals_list).
     if signals_list = [] then (st, results)
     else foldl (save_signal raises rejects now tk)
            (st, results\<lparr>batch_tickers_processed := batch_tickers_processed results + 1\<rparr>)
            signals_list)"

definition empty_results :: batch_results where
  "empty_results =
     \<lparr>total_signals = 0, saved_signals = 0, updated_signals = 0, errors = 0,
      batch_tickers_processed = 0\<rparr>"

definition save_signals_batch ::
  "(observation \<Rightarrow> bool) \<Rightarrow> (signal \<Rightarrow> bool) \<Rightarrow> int \<Rightarrow> store
     \<Rightarrow> (string \<times> observation list) list \<Rightarrow> store \<times> batch_results" where
  "save_signals_batch raises rejects now st signals_data =
     foldl (save_ticker_signals raises rejects now) (st, empty_results) signals_data"

definition empty_store :: store where
  "empty_store = \<lparr>signals = [], error_logs = []\<rparr>"

text \<open>
  A sample observation: BTC, 1h, LONG, entry 50000, take-profit 52000, stop-loss 48000,
  confidence 80.
\<close>

definition btc_observation :: observation where
  "btc_observation =
     \<lparr>o_ticker = ''BTC'', o_timeframe = ''1h'', o_signal_type = ''LONG'',
      o_entry_price = 50000, o_take_profit = Some 52000, o_stop_loss = Some 48000,
      o_confidence = Some 80, o_risk_reward = None, o_current_price = 50000,
      o_status = ''new'', o_created_at = 0, o_signal_category = Some ''main'',
      o_correction = None, o_warnings = Some []\<rparr>"

text \<open>
  The columns of a row that the merge must leave alone, and those it may write.
\<close>

definition immutable_fields ::
  "signal \<Rightarrow> (nat \<times> string \<times> string \<times> string \<times> real \<times> real option \<times> real option)
             \<times> (real option \<times> string \<times> bool \<times> int)" where
  "immutable_fields r =
     ((signal_id r, ticker r, timeframe r, signal_type r, entry_price r, take_profit r,
       stop_loss r),
      (risk_reward r, status r, is_main_signal r, created_at r))"

definition mutable_fields ::
  "signal \<Rightarrow> (real option \<times> real option)
             \<times> (string option \<times> real option \<times> real option \<times> real option \<times> real option)" where
  "mutable_fields r =
     ((current_price r, confidence r),
      (correction_type r, correction_entry r, correction_tp r, correction_sl r,
       correction_confidence r))"

text \<open>
  \<open>same_contract r r'\<close>: entry price, take-profit, stop-loss and direction of \<open>r'\<close> are
  those of \<open>r\<close>. \<open>contract_kept rows rows'\<close>: every row of \<open>rows\<close> is still there in
  \<open>rows'\<close>, at its place, with the same contract.
\<close>

definition same_contract :: "signal \<Rightarrow> signal \<Rightarrow> bool" where
  "same_contract r r' =
     (entry_price r' = entry_price r \<and> take_profit r' = take_profit r
      \<and> stop_loss r' = stop_loss r \<and> signal_type r' = signal_type r)"

fun contract_kept :: "signal list \<Rightarrow> signal list \<Rightarrow> bool" where
  "contract_kept [] rows' = True"
| "contract_kept (r # rows) [] = False"
| "contract_kept (r # rows) (r' # rows') = (same_contract r r' \<and> contract_kept rows rows')"

text \<open>
  The match criterion in the words of the specification: same ticker and timeframe,
  created no more than 30 minutes before \<open>now\<close>, and not yet resolved.
\<close>

definition dedup_match_spec :: "int \<Rightarrow> observation \<Rightarrow> signal \<Rightarrow> bool" where
  "dedup_match_spec now ob r =
     (ticker r = o_ticker ob \<and> timeframe r = o_timeframe ob
      \<and> now - 30 * 60 * 1000000 \<le> created_at r
      \<and> (status r = ''new'' \<or> status r = ''entry_hit'' \<or> status r = ''active''))"

text \<open>
  Between two batches the session commits and a later session reads the rows back. The
  store is PostgreSQL (config.py); a \<open>Numeric(p, s)\<close> column keeps a value rounded to
  \<open>s\<close> decimals: 8 for the prices, 2 for the confidences and the risk/reward ratio
  (models.py). Ties are rounded up here.
\<close>

definition numeric_column :: "nat \<Rightarrow> real \<Rightarrow> real" where
  "numeric_column scale x = of_int (round (x * 10 ^ scale)) / 10 ^ scale"

definition reload_signal :: "signal \<Rightarrow> signal" where
  "reload_signal r =
     r\<lparr>entry_price := numeric_column 8 (entry_price r),
       take_profit := map_option (numeric_column 8) (take_profit r),
       stop_loss := map_option (numeric_column 8) (stop_loss r),
       confidence := map_option (numeric_column 2) (confidence r),
       risk_reward := map_option (numeric_column 2) (risk_reward r),
       current_price := map_option (numeric_column 8) (current_price r),
       correction_entry := map_option (numeric_column 8) (correction_entry r),
       correction_tp := map_option (numeric_column 8) (correction_tp r),
       correction_sl := map_option (numeric_column 8) (correction_sl r),
       correction_confidence := map_option (numeric_column 2) (correction_confidence r)\<rparr>"

definition next_session :: "store \<Rightarrow> store" where
  "next_session st = st\<lparr>signals := map reload_signal (signals st)\<rparr>"

text \<open>
  The floats that Python writes \<open>19.8\<close> and \<open>91.3\<close>, as the exact values they have,
  an observation that carries them as current price and confidence, and the row and the
  store a later session reads after that observation was saved at time 0.
\<close>

definition float_19_8 :: real where
  "float_19_8 = 5573204538870989 / 281474976710656"

definition float_91_3 :: real where
  "float_91_3 = 6424666343420723 / 70368744177664"

definition avax_observation :: observation where
  "avax_observation =
     \<lparr>o_ticker = ''AVAX'', o_timeframe = ''1h'', o_signal_type = ''LONG'',
      o_entry_price = 20, o_take_profit = Some 22, o_stop_loss = Some 19,
      o_confidence = Some float_91_3, o_risk_reward = None, o_current_price = float_19_8,
      o_status = ''new'', o_created_at = 0, o_signal_category = Some ''main'',
      o_correction = None, o_warnings = Some []\<rparr>"

definition avax_stored :: signal where
  "avax_stored =
     \<lparr>signal_id = 1, ticker = ''AVAX'', timeframe = ''1h'', signal_type = ''LONG'',
      entry_price = 20, take_profit = Some 22, stop_loss = Some 19,
      confidence = Some 91.3, risk_reward = None, current_price = Some 19.8,
      status = ''new'', is_main_signal = True,
      correction_type = None, correction_entry = None, correction_tp = None,
      correction_sl = None, correction_confidence = None, created_at = 0\<rparr>"

definition avax_row_store :: store where
  "avax_row_store = \<lparr>signals = [avax_stored], error_logs = []\<rparr>"

text \<open>
  The store a later session reads after the sample BTC observation was saved at time 0,
  a store that never fails, and one that rejects every insert.
\<close>

definition one_row_store :: store where
  "one_row_store =
     \<lparr>signals =
        [\<lparr>signal_id = 1, ticker = ''BTC'', timeframe = ''1h'', signal_type = ''LONG'',
          entry_price = 50000, take_profit = Some 52000, stop_loss = Some 48000,
          confidence = Some 80, risk_reward = None, current_price = Some 50000,
          status = ''new'', is_main_signal = True,
          correction_type = None, correction_entry = None, correction_tp = None,
          correction_sl = None, correction_confidence = None, created_at = 0\<rparr>],
      error_logs = []\<rparr>"

definition never_raises :: "observation \<Rightarrow> bool" where
  "never_raises ob = False"

definition never_rejects :: "signal \<Rightarrow> bool" where
  "never_rejects r = False"


section \<open>Response parser (api_client/response_parser.py, SignalDataParser)\<close>

text \<open>
  The decoded JSON of an API response: \<open>None\<close>, booleans, integers, floats, text,
  lists and dicts. A dict is the list of its items; \<open>map_of\<close> looks a key up.
\<close>

datatype pyval =
    PNone
  | PBool bool
  | PInt int
  | PFloat real
  | PStr string
  | PList "pyval list"
  | PDict "(string \<times> pyval) list"

type_synonym pydict = "(string \<times> pyval) list"

text \<open>
  Python's truth test, as in \<open>if not data\<close>.
\<close>

definition truthy :: "pyval \<Rightarrow> bool" where
  "truthy v =
     (case v of
        PNone \<Rightarrow> False
      | PBool b \<Rightarrow> b
      | PInt i \<Rightarrow> i \<noteq> 0
      | PFloat r \<Rightarrow> r \<noteq> 0
      | PStr s \<Rightarrow> s \<noteq> []
      | PList xs \<Rightarrow> xs \<noteq> []
      | PDict d \<Rightarrow> d \<noteq> [])"

text \<open>
  \<open>d.get(k)\<close>, and the assignment \<open>d[k] = v\<close> on a copy of \<open>d\<close>.
\<close>

definition dict_get :: "pydict \<Rightarrow> string \<Rightarrow> pyval" where
  "dict_get d k = (case map_of d k of None \<Rightarrow> PNone | Some v \<Rightarrow> v)"

definition dict_set :: "pydict \<Rightarrow> string \<Rightarrow> pyval \<Rightarrow> pydict" where
  "dict_set d k v =
     (if map_of d k = None then d @ [(k, v)]
      else map (\<lambda>(k', v'). if k' = k then (k', v) else (k', v')) d)"

text \<open>
  \<open>float(value)\<close> inside \<open>try ... except (ValueError, TypeError)\<close>: \<open>None\<close> stands for
  the caught exception. What \<open>float\<close> makes of a text is the parameter \<open>sf\<close>.
  Floats are modelled as reals; integers too large for a float, and the values
  \<open>nan\<close> and \<open>inf\<close>, are outside the model.
\<close>

definition py_float :: "(string \<Rightarrow> real option) \<Rightarrow> pyval \<Rightarrow> real option" where
  "py_float sf v =
     (case v of
        PBool b \<Rightarrow> Some (if b then 1 else 0)
      | PInt i \<Rightarrow> Some (of_int i)
      | PFloat r \<Rightarrow> Some r
      | PStr s \<Rightarrow> sf s
      | _ \<Rightarrow> None)"

text \<open>
  \<open>_extract_field\<close>: the value of the first of the possible keys that is present and
  not \<open>None\<close>, else the default. \<open>_extract_numeric_field\<close> converts that one value and
  does not go on to later keys when the conversion fails.
\<close>

fun extract_field :: "pydict \<Rightarrow> string list \<Rightarrow> pyval \<Rightarrow> pyval" where
  "extract_field d [] dflt = dflt"
| "extract_field d (key # possible_keys) dflt =
     (case map_of d key of
        None \<Rightarrow> extract_field d possible_keys dflt
      | Some PNone \<Rightarrow> extract_field d possible_keys dflt
      | Some v \<Rightarrow> v)"

definition extract_numeric_field ::
  "(string \<Rightarrow> real option) \<Rightarrow> pydict \<Rightarrow> string list \<Rightarrow> real option" where
  "extract_numeric_field sf d possible_keys =
     (case extract_field d possible_keys PNone of
        PNone \<Rightarrow> None
      | v \<Rightarrow> py_float sf v)"

text \<open>
  \<open>str.strip()\<close> removes leading and trailing whitespace; these are the ASCII
  characters for which \<open>str.isspace()\<close> holds.
\<close>

definition is_space :: "char \<Rightarrow> bool" where
  "is_space c =
     (c \<in> set [CHR 0x09, CHR 0x0A, CHR 0x0B, CHR 0x0C, CHR 0x0D,
                CHR 0x1C, CHR 0x1D, CHR 0x1E, CHR 0x1F, CHR '' ''])"

definition strip :: "string \<Rightarrow> string" where
  "strip s = rev (dropWhile is_space (rev (dropWhile is_space s)))"

text \<open>
  \<open>_normalize_signal_type\<close>: a false value gives \<open>HOLD\<close>; otherwise
  \<open>str(signal_type).upper().strip()\<close> is looked up in the two lists and everything else
  is \<open>HOLD\<close>. For a value that is not text, \<open>str\<close> gives \<open>1\<close> or \<open>-1\<close> only for these
  two integers, and for no boolean, float, list or dict a text of either list.
\<close>

definition classify_signal_type :: "string \<Rightarrow> string" where
  "classify_signal_type t =
     (if t \<in> set [''LONG'', ''BUY'', ''1'', ''UP'', ''BULL'', ''BULLISH''] then ''LONG''
      else if t \<in> set [''SHORT'', ''SELL'', ''-1'', ''DOWN'', ''BEAR'', ''BEARISH''] then ''SHORT''
      else ''HOLD'')"

definition normalize_signal_type :: "pyval \<Rightarrow> string" where
  "normalize_signal_type v =
     (if \<not> truthy v then ''HOLD''
      else case v of
             PStr s \<Rightarrow> classify_signal_type (strip (upper s))
           | PInt i \<Rightarrow> (if i = 1 then ''LONG'' else if i = - 1 then ''SHORT'' else ''HOLD'')
           | _ \<Rightarrow> ''HOLD'')"

text \<open>
  \<open>_parse_single_signal\<close>. \<open>if not entry_price\<close> rejects a missing, unreadable or zero
  entry price. The check of the direction against \<open>['LONG', 'SHORT', 'HOLD']\<close> follows.
  The optional numbers go through \<open>float(x) if x else None\<close>, and the current price
  falls back to the entry price.
\<close>

definition parse_single_signal ::
  "(string \<Rightarrow> real option) \<Rightarrow> int \<Rightarrow> pydict \<Rightarrow> string \<Rightarrow> string \<Rightarrow> observation option" where
  "parse_single_signal sf now d tk tf =
     (let raw_type = extract_field d [''type'', ''signal'', ''signal_type'', ''direction'', ''side'']
                       (PStr ''HOLD'');
          entry = extract_numeric_field sf d [''entry'', ''entry_price'', ''price''];
          tp = extract_numeric_field sf d [''tp'', ''take_profit'', ''target'', ''take''];
          sl = extract_numeric_field sf d [''sl'', ''stop_loss'', ''stop'', ''stoploss''];
          conf = extract_numeric_field sf d [''confidence'', ''prob'', ''probability'', ''conf''];
          cur = extract_numeric_field sf d [''current_price'', ''price'', ''current'', ''last_price''];
          rr = extract_numeric_field sf d [''risk_reward'', ''rr'', ''risk_to_reward'', ''r_r''];
          stype = normalize_signal_type raw_type
      in case float_if_truthy entry of
           None \<Rightarrow> None
         | Some e \<Rightarrow>
             if stype \<notin> set [''LONG'', ''SHORT'', ''HOLD''] then None
             else Some
               \<lparr>o_ticker = tk, o_timeframe = tf, o_signal_type = stype,
                o_entry_price = e,
                o_take_profit = float_if_truthy tp,
                o_stop_loss = float_if_truthy sl,
                o_confidence = float_if_truthy conf,
                o_risk_reward = float_if_truthy rr,
                o_current_price = (case float_if_truthy cur of Some c \<Rightarrow> c | None \<Rightarrow> e),
                o_status = ''new'', o_created_at = now,
                o_signal_category = None, o_correction = None, o_warnings = None\<rparr>)"

text \<open>
  \<open>_parse_timeframe_item\<close>. For each of the keys \<open>main_signal\<close> and
  \<open>correction_signal\<close> that the item has, the nested dict is copied, given the item's
  \<open>current_price\<close> and parsed; a nested value that is not a dict raises, and the handler
  of the function then returns the empty list (\<open>None\<close> in \<open>parse_nested_signal\<close>). When
  neither gave a signal the item itself is parsed as a flat signal.
\<close>

definition parse_nested_signal ::
  "(string \<Rightarrow> real option) \<Rightarrow> int \<Rightarrow> pydict \<Rightarrow> string \<Rightarrow> string \<Rightarrow> string \<Rightarrow> string
     \<Rightarrow> observation list option" where
  "parse_nested_signal sf now item tk tf key category =
     (case map_of item key of
        None \<Rightarrow> Some []
      | Some (PDict d) \<Rightarrow>
          (case parse_single_signal sf now
                  (dict_set d ''current_price'' (dict_get item ''current_price'')) tk tf of
             None \<Rightarrow> Some []
           | Some parsed \<Rightarrow> Some [parsed\<lparr>o_signal_category := Some category\<rparr>])
      | Some other \<Rightarrow> None)"

definition parse_timeframe_item ::
  "(string \<Rightarrow> real option) \<Rightarrow> int \<Rightarrow> pydict \<Rightarrow> string \<Rightarrow> string \<Rightarrow> observation list" where
  "parse_timeframe_item sf now item tk tf =
     (case parse_nested_signal sf now item tk tf ''main_signal'' ''main'' of
        None \<Rightarrow> []
      | Some mains \<Rightarrow>
          (case parse_nested_signal sf now item tk tf ''correction_signal'' ''correction'' of
             None \<Rightarrow> []
           | Some corrections \<Rightarrow>
               (if mains @ corrections = [] then
                  (case parse_single_signal sf now item tk tf of
                     None \<Rightarrow> []
                   | Some parsed \<Rightarrow> [parsed\<lparr>o_signal_category := Some ''main''\<rparr>])
                else mains @ corrections)))"

text \<open>
  \<open>parse_signal_response\<close>. An empty response and a response that is neither a list nor
  a dict raise \<open>ValidationError\<close>. The timeframe of an item is
  \<open>item.get('timeframe', '1h')\<close>; the model covers responses whose timeframes are text,
  and answers \<open>Timeframe_not_text\<close> on the others. In a list, elements that are not
  dicts are passed over.
\<close>

datatype parse_error = Empty_response | Unsupported_response_type | Timeframe_not_text

definition item_timeframe :: "pydict \<Rightarrow> string option" where
  "item_timeframe item =
     (case map_of item ''timeframe'' of
        None \<Rightarrow> Some ''1h''
      | Some (PStr s) \<Rightarrow> Some s
      | Some other \<Rightarrow> None)"

fun parse_list_items ::
  "(string \<Rightarrow> real option) \<Rightarrow> int \<Rightarrow> string \<Rightarrow> pyval list \<Rightarrow> parse_error + observation list" where
  "parse_list_items sf now tk [] = Inr []"
| "parse_list_items sf now tk (PDict item # rest) =
     (case item_timeframe item of
        None \<Rightarrow> Inl Timeframe_not_text
      | Some tf \<Rightarrow>
          (case parse_list_items sf now tk rest of
             Inl e \<Rightarrow> Inl e
           | Inr sigs \<Rightarrow> Inr (parse_timeframe_item sf now item tk tf @ sigs)))"
| "parse_list_items sf now tk (other # rest) = parse_list_items sf now tk rest"

fun parse_signals_field ::
  "(string \<Rightarrow> real option) \<Rightarrow> int \<Rightarrow> string \<Rightarrow> pyval list \<Rightarrow> parse_error + observation list" where
  "parse_signals_field sf now tk [] = Inr []"
| "parse_signals_field sf now tk (PDict item # rest) =
     (case item_timeframe item of
        None \<Rightarrow> Inl Timeframe_not_text
      | Some tf \<Rightarrow>
          (case parse_signals_field sf now tk rest of
             Inl e \<Rightarrow> Inl e
           | Inr sigs \<Rightarrow>
               Inr ((case parse_single_signal sf now item tk tf of
                       None \<Rightarrow> [] | Some parsed \<Rightarrow> [parsed]) @ sigs)))"
| "parse_signals_field sf now tk (other # rest) = parse_signals_field sf now tk rest"

definition parse_timeframe_keys ::
  "(string \<Rightarrow> real option) \<Rightarrow> int \<Rightarrow> string \<Rightarrow> pydict \<Rightarrow> observation list" where
  "parse_timeframe_keys sf now tk d =
     concat (map (\<lambda>tf. case map_of d tf of
                          Some (PDict signal_data) \<Rightarrow>
                            (if signal_data = [] then []
                             else case parse_single_signal sf now signal_data tk tf of
                                    None \<Rightarrow> [] | Some parsed \<Rightarrow> [parsed])
                        | _ \<Rightarrow> [])
                 [''15m'', ''1h'', ''4h'', ''1d''])"

definition parse_signal_response ::
  "(string \<Rightarrow> real option) \<Rightarrow> int \<Rightarrow> pyval \<Rightarrow> string \<Rightarrow> parse_error + observation list" where
  "parse_signal_response sf now data tk =
     (if \<not> truthy data then Inl Empty_response
      else case data of
             PList items \<Rightarrow> parse_list_items sf now tk items
           | PDict d \<Rightarrow>
               (case (case map_of d ''signals'' of
                        Some (PList items) \<Rightarrow> parse_signals_field sf now tk items
                      | _ \<Rightarrow> Inr []) of
                  Inl e \<Rightarrow> Inl e
                | Inr sigs \<Rightarrow> Inr (parse_timeframe_keys sf now tk d @ sigs))
           | _ \<Rightarrow> Inl Unsupported_response_type)"

text \<open>
  Sample responses for the ticker BTC, with every number given as a JSON number (so
  that no text is ever converted): flat items with entry 100, take-profit 110, stop-loss
  90 and confidence 70; an item without entry price; and what the parser, the annotator
  and the store make of a flat item.
\<close>

definition no_text_numbers :: "string \<Rightarrow> real option" where
  "no_text_numbers s = None"

definition flat_fields :: "string \<Rightarrow> string \<Rightarrow> pydict" where
  "flat_fields tf direction =
     [(''timeframe'', PStr tf), (''signal'', PStr direction), (''entry_price'', PFloat 100),
      (''take_profit'', PFloat 110), (''stop_loss'', PFloat 90), (''confidence'', PFloat 70)]"

definition malformed_fields :: pydict where
  "malformed_fields = [(''timeframe'', PStr ''1w''), (''signal'', PStr ''LONG'')]"

definition hold_response :: pyval where
  "hold_response = PList [PDict (flat_fields ''1h'' ''HOLD'')]"

definition five_item_response :: pyval where
  "five_item_response =
     PList [PDict (flat_fields ''15m'' ''LONG''),
            PDict (flat_fields ''1h'' ''SHORT''),
            PDict (flat_fields ''4h'' ''LONG''),
            PDict (flat_fields ''1d'' ''HOLD''),
            PDict malformed_fields]"

definition four_and_malformed_response :: pyval where
  "four_and_malformed_response =
     PList [PDict (flat_fields ''15m'' ''LONG''),
            PDict (flat_fields ''1h'' ''SHORT''),
            PDict malformed_fields,
            PDict (flat_fields ''4h'' ''LONG''),
            PDict (flat_fields ''1d'' ''SHORT'')]"

definition parsed_flat :: "string \<Rightarrow> string \<Rightarrow> observation" where
  "parsed_flat tf direction =
     \<lparr>o_ticker = ''BTC'', o_timeframe = tf, o_signal_type = direction,
      o_entry_price = 100, o_take_profit = Some 110, o_stop_loss = Some 90,
      o_confidence = Some 70, o_risk_reward = None, o_current_price = 100,
      o_status = ''new'', o_created_at = 0, o_signal_category = Some ''main'',
      o_correction = None, o_warnings = None\<rparr>"

definition analyzed_flat :: "string \<Rightarrow> string \<Rightarrow> observation" where
  "analyzed_flat tf direction = (parsed_flat tf direction)\<lparr>o_warnings := Some []\<rparr>"

definition stored_flat :: "nat \<Rightarrow> string \<Rightarrow> string \<Rightarrow> signal" where
  "stored_flat n tf direction =
     \<lparr>signal_id = n, ticker = ''BTC'', timeframe = tf, signal_type = direction,
      entry_price = 100, take_profit = Some 110, stop_loss = Some 90,
      confidence = Some 70, risk_reward = None, current_price = Some 100,
      status = ''new'', is_main_signal = True,
      correction_type = None, correction_entry = None, correction_tp = None,
      correction_sl = None, correction_confidence = None, created_at = 0\<rparr>"

text \<open>
  What one element of a response contributes on its own: an element of a list response,
  an element of the list under the key \<open>signals\<close> of a dict response, and the elements
  of that list. \<open>timeframes_are_text\<close> holds when every dict among the elements has a
  text timeframe or none.
\<close>

definition list_element_signals ::
  "(string \<Rightarrow> real option) \<Rightarrow> int \<Rightarrow> string \<Rightarrow> pyval \<Rightarrow> observation list" where
  "list_element_signals sf now tk v =
     (case v of
        PDict item \<Rightarrow>
          (case item_timeframe item of
             None \<Rightarrow> []
           | Some tf \<Rightarrow> parse_timeframe_item sf now item tk tf)
      | _ \<Rightarrow> [])"

definition signals_element_signals ::
  "(string \<Rightarrow> real option) \<Rightarrow> int \<Rightarrow> string \<Rightarrow> pyval \<Rightarrow> observation list" where
  "signals_element_signals sf now tk v =
     (case v of
        PDict item \<Rightarrow>
          (case item_timeframe item of
             None \<Rightarrow> []
           | Some tf \<Rightarrow>
               (case parse_single_signal sf now item tk tf of
                  None \<Rightarrow> []
                | Some parsed \<Rightarrow> [parsed]))
      | _ \<Rightarrow> [])"

definition signals_elements :: "pydict \<Rightarrow> pyval list" where
  "signals_elements d = (case map_of d ''signals'' of Some (PList items) \<Rightarrow> items | _ \<Rightarrow> [])"

definition timeframe_is_text :: "pyval \<Rightarrow> bool" where
  "timeframe_is_text v = (case v of PDict item \<Rightarrow> item_timeframe item \<noteq> None | _ \<Rightarrow> True)"

definition timeframes_are_text :: "pyval list \<Rightarrow> bool" where
  "timeframes_are_text items = list_all timeframe_is_text items"

text \<open>
  A sample response in the dict shape: a good signal under the key \<open>15m\<close>, a signal
  without entry price under \<open>1h\<close>, and under \<open>signals\<close> a list of an item without entry
  price followed by a good one. Signals of a dict response carry no category.
\<close>

definition keyed_fields :: pydict where
  "keyed_fields =
     [(''15m'', PDict (flat_fields ''15m'' ''LONG'')),
      (''1h'', PDict malformed_fields),
      (''signals'', PList [PDict malformed_fields, PDict (flat_fields ''4h'' ''SHORT'')])]"

definition keyed_response :: pyval where
  "keyed_response = PDict keyed_fields"

definition parsed_keyed :: "string \<Rightarrow> string \<Rightarrow> observation" where
  "parsed_keyed tf direction = (parsed_flat tf direction)\<lparr>o_signal_category := None\<rparr>"

text \<open>
  The total, the error count and the number of logged errors of a batch in progress.
\<close>

definition batch_counts :: "store \<times> batch_results \<Rightarrow> nat \<times> nat \<times> nat" where
  "batch_counts acc = (total_signals (snd acc), errors (snd acc), length (error_logs (fst acc)))"

section \<open>Properties of the execution state machine\<close>

lemma upper_LONG: "upper ''LONG'' = ''LONG''"
  by (simp add: upper_def upper_char_def)

lemma upper_SHORT: "upper ''SHORT'' = ''SHORT''"
  by (simp add: upper_def upper_char_def)

lemma long_not_short: "\<not> (is_long s \<and> is_short s)"
  by (simp add: is_long_def is_short_def)

lemma check_from_open:
  assumes "status s = ''entry_hit'' \<or> status s = ''active''"
  shows "check_signal_execution s price =
           (if stop_fires s price then ''sl_hit''
            else if take_fires s price then ''tp_hit''
            else ''active'')"
  using assms
  by (auto simp: check_signal_execution_def float_if_truthy_def stop_fires_def take_fires_def
      check_stop_loss_execution_def check_take_profit_execution_def is_long_def is_short_def
      Let_def split: option.splits)

lemma check_from_new:
  assumes "status s = ''new''"
  shows "check_signal_execution s price =
           (if (is_long s \<and> price \<le> entry_price s) \<or> (is_short s \<and> price \<ge> entry_price s)
            then ''entry_hit'' else ''new'')"
  using assms
  by (auto simp: check_signal_execution_def check_entry_execution_def is_long_def is_short_def
      Let_def)

lemma check_from_other:
  assumes "status s \<noteq> ''new''" "status s \<noteq> ''entry_hit''" "status s \<noteq> ''active''"
  shows "check_signal_execution s price = status s"
  using assms by (simp add: check_signal_execution_def Let_def)

text \<open>
  C1, as the specification states it, fails: a SHORT whose stored stop-loss is zero
  and whose take-profit is 100, at price 50. Both conditions hold
  (\<open>50 \<ge> 0\<close> and \<open>50 \<le> 100\<close>), yet the zero stop-loss is read as absent and the
  result is \<open>tp_hit\<close>.
\<close>

theorem C1_zero_stop_counterexample:
  "stop_loss_condition
     (sample_long\<lparr>signal_type := ''SHORT'', status := ''active'',
        stop_loss := Some 0, take_profit := Some 100\<rparr>) 50
   \<and> take_profit_condition
     (sample_long\<lparr>signal_type := ''SHORT'', status := ''active'',
        stop_loss := Some 0, take_profit := Some 100\<rparr>) 50
   \<and> check_signal_execution
     (sample_long\<lparr>signal_type := ''SHORT'', status := ''active'',
        stop_loss := Some 0, take_profit := Some 100\<rparr>) 50 = ''tp_hit''"
  by (simp add: stop_loss_condition_def take_profit_condition_def is_long_def is_short_def
      check_signal_execution_def float_if_truthy_def check_stop_loss_execution_def
      check_take_profit_execution_def sample_long_def upper_def upper_char_def)

text \<open>
  C1 (amended): for a signal in status \<open>entry_hit\<close> or \<open>active\<close>, with a stop-loss or
  take-profit that is missing or zero counted as disabled: when the stop-loss condition
  holds on a non-zero stop-loss the result is \<open>sl_hit\<close>, whatever the take-profit
  condition says; when neither condition holds the result is \<open>active\<close>; and a missing
  or zero stop-loss (take-profit) never yields \<open>sl_hit\<close> (\<open>tp_hit\<close>).
\<close>

theorem C1_stop_loss_priority:
  assumes "status s = ''entry_hit'' \<or> status s = ''active''"
  shows "(stop_loss_condition s price \<and> stop_loss s \<noteq> Some 0
            \<longrightarrow> check_signal_execution s price = ''sl_hit'')
       \<and> (\<not> stop_loss_condition s price \<and> \<not> take_profit_condition s price
            \<longrightarrow> check_signal_execution s price = ''active'')
       \<and> (stop_loss s = None \<or> stop_loss s = Some 0
            \<longrightarrow> check_signal_execution s price \<noteq> ''sl_hit'')
       \<and> (take_profit s = None \<or> take_profit s = Some 0
            \<longrightarrow> check_signal_execution s price \<noteq> ''tp_hit'')"
proof -
  have eq: "check_signal_execution s price =
           (if stop_fires s price then ''sl_hit''
            else if take_fires s price then ''tp_hit''
            else ''active'')"
    using assms by (rule check_from_open)
  have a: "stop_fires s price" if "stop_loss_condition s price \<and> stop_loss s \<noteq> Some 0"
    using that by (auto simp: stop_loss_condition_def stop_fires_def split: option.splits)
  have b: "\<not> stop_fires s price" if "\<not> stop_loss_condition s price"
    using that by (auto simp: stop_loss_condition_def stop_fires_def split: option.splits)
  have c: "\<not> take_fires s price" if "\<not> take_profit_condition s price"
    using that by (auto simp: take_profit_condition_def take_fires_def split: option.splits)
  have d: "\<not> stop_fires s price" if "stop_loss s = None \<or> stop_loss s = Some 0"
    using that by (auto simp: stop_fires_def)
  have e: "\<not> take_fires s price" if "take_profit s = None \<or> take_profit s = Some 0"
    using that by (auto simp: take_fires_def)
  have p1: "check_signal_execution s price = ''sl_hit''"
    if "stop_loss_condition s price \<and> stop_loss s \<noteq> Some 0"
    using a [OF that] by (simp add: eq)
  have p2: "check_signal_execution s price = ''active''"
    if "\<not> stop_loss_condition s price \<and> \<not> take_profit_condition s price"
    using that b c by (simp add: eq)
  have p3: "check_signal_execution s price \<noteq> ''sl_hit''"
    if "stop_loss s = None \<or> stop_loss s = Some 0"
    using d [OF that] by (simp add: eq)
  have p4: "check_signal_execution s price \<noteq> ''tp_hit''"
    if "take_profit s = None \<or> take_profit s = Some 0"
    using e [OF that] by (simp add: eq)
  show ?thesis
    using p1 p2 p3 p4 by blast
qed

theorem C1_stop_loss_priority_witness:
  "check_signal_execution
     (sample_long\<lparr>status := ''active'', take_profit := Some 95, stop_loss := Some 105\<rparr>) 100
   = ''sl_hit''"
proof -
  let ?s = "sample_long\<lparr>status := ''active'', take_profit := Some 95, stop_loss := Some 105\<rparr>"
  have st: "status ?s = ''entry_hit'' \<or> status ?s = ''active''"
    by (simp add: sample_long_def)
  have both: "stop_loss_condition ?s 100 \<and> stop_loss ?s \<noteq> Some 0"
    by (simp add: stop_loss_condition_def is_long_def sample_long_def upper_LONG)
  show ?thesis
    using C1_stop_loss_priority [OF st, of 100] both by blast
qed

text \<open>
  C2: from status \<open>new\<close> the result is \<open>entry_hit\<close> exactly when the signal is a LONG and
  the price is at or below the entry price, or a SHORT and the price is at or above it
  (equality included); in every other case the result is \<open>new\<close>.
\<close>

theorem C2_entry_fill:
  assumes "status s = ''new''"
  shows "(check_signal_execution s price = ''entry_hit''
            \<longleftrightarrow> (is_long s \<and> price \<le> entry_price s) \<or> (is_short s \<and> price \<ge> entry_price s))
       \<and> (check_signal_execution s price = ''entry_hit''
            \<or> check_signal_execution s price = ''new'')"
  using check_from_new [OF assms, of price] by simp

theorem C2_entry_fill_witness:
  "check_signal_execution sample_long 100 = ''entry_hit''
   \<and> check_signal_execution sample_long 101 = ''new''
   \<and> check_signal_execution (sample_long\<lparr>signal_type := ''SHORT''\<rparr>) 100 = ''entry_hit''
   \<and> check_signal_execution (sample_long\<lparr>signal_type := ''SHORT''\<rparr>) 99 = ''new''"
proof -
  let ?l = "sample_long" and ?h = "sample_long\<lparr>signal_type := ''SHORT''\<rparr>"
  have l: "status ?l = ''new''" and h: "status ?h = ''new''"
    by (simp_all add: sample_long_def)
  have tl: "is_long ?l \<and> \<not> is_short ?l \<and> entry_price ?l = 100"
    by (simp add: is_long_def is_short_def sample_long_def upper_LONG)
  have th: "is_short ?h \<and> \<not> is_long ?h \<and> entry_price ?h = 100"
    by (simp add: is_long_def is_short_def sample_long_def upper_SHORT)
  have "check_signal_execution ?l 100 = ''entry_hit''"
    using C2_entry_fill [OF l, of 100] tl by auto
  moreover have "check_signal_execution ?l 101 = ''new''"
    using C2_entry_fill [OF l, of 101] tl by auto
  moreover have "check_signal_execution ?h 100 = ''entry_hit''"
    using C2_entry_fill [OF h, of 100] th by auto
  moreover have "check_signal_execution ?h 99 = ''new''"
    using C2_entry_fill [OF h, of 99] th by auto
  ultimately show ?thesis by blast
qed

text \<open>
  C3: the returned status never precedes the current one in the order
  \<open>new\<close>, \<open>entry_hit\<close>, \<open>active\<close>, \<open>tp_hit\<close>/\<open>sl_hit\<close>. From \<open>new\<close> the result is
  \<open>new\<close> or \<open>entry_hit\<close>; from \<open>entry_hit\<close> or \<open>active\<close> it is \<open>active\<close>, \<open>tp_hit\<close> or
  \<open>sl_hit\<close>; every other status, \<open>tp_hit\<close>, \<open>sl_hit\<close> and \<open>closed\<close> among them, is
  returned unchanged.
\<close>

theorem C3_status_forward:
  "status_rank (status s) \<le> status_rank (check_signal_execution s price)
   \<and> (status s = ''new''
        \<longrightarrow> check_signal_execution s price \<in> {''new'', ''entry_hit''})
   \<and> (status s = ''entry_hit'' \<or> status s = ''active''
        \<longrightarrow> check_signal_execution s price \<in> {''active'', ''tp_hit'', ''sl_hit''})
   \<and> (status s \<notin> {''new'', ''entry_hit'', ''active''}
        \<longrightarrow> check_signal_execution s price = status s)"
proof -
  consider (new) "status s = ''new''"
    | (opened) "status s = ''entry_hit'' \<or> status s = ''active''"
    | (other) "status s \<noteq> ''new''" "status s \<noteq> ''entry_hit''" "status s \<noteq> ''active''"
    by blast
  then show ?thesis
  proof cases
    case new
    then show ?thesis
      by (simp add: check_from_new status_rank_def)
  next
    case opened
    then show ?thesis
      by (auto simp: check_from_open status_rank_def)
  next
    case other
    then show ?thesis
      by (simp add: check_from_other)
  qed
qed

theorem C3_status_forward_witness:
  "check_signal_execution (sample_long\<lparr>status := ''tp_hit''\<rparr>) 50 = ''tp_hit''
   \<and> check_signal_execution (sample_long\<lparr>status := ''sl_hit''\<rparr>) 500 = ''sl_hit''
   \<and> check_signal_execution (sample_long\<lparr>status := ''closed''\<rparr>) 50 = ''closed''
   \<and> check_signal_execution (sample_long\<lparr>status := ''entry_hit''\<rparr>) 100
       \<in> {''active'', ''tp_hit'', ''sl_hit''}"
  using C3_status_forward [of "sample_long\<lparr>status := ''tp_hit''\<rparr>" 50]
    C3_status_forward [of "sample_long\<lparr>status := ''sl_hit''\<rparr>" 500]
    C3_status_forward [of "sample_long\<lparr>status := ''closed''\<rparr>" 50]
    C3_status_forward [of "sample_long\<lparr>status := ''entry_hit''\<rparr>" 100]
  by (simp add: sample_long_def)

section \<open>Properties of the confidence annotator\<close>

lemma analyze_signal_total:
  "\<exists>ws. analyze_signal ob = Inr (ob\<lparr>o_warnings := Some ws\<rparr>)
        \<and> map wtype ws = expected_warning_types (o_confidence ob)"
proof (cases "o_confidence ob")
  case None
  then have "analyze_signal ob = Inr (ob\<lparr>o_warnings := Some []\<rparr>)"
    by (simp add: analyze_signal_def)
  moreover have "map wtype [] = expected_warning_types (o_confidence ob)"
    using None by (simp add: expected_warning_types_def)
  ultimately show ?thesis by blast
next
  case (Some c)
  have t: "check_trend_conflict ob =
             (if c > 95
              then Inr (Some \<lparr>wtype = ''potential_trend_conflict'',
                              message = Trend_conflict_message, severity = ''warning''\<rparr>)
              else Inr None)"
    using Some by (simp add: check_trend_conflict_def)
  consider (very_high) "c > 95" | (high) "90 \<le> c" "c \<le> 95" | (mid) "50 \<le> c" "c < 90"
    | (low) "c < 50"
    by linarith
  then show ?thesis
  proof cases
    case very_high
    let ?ws = "[\<lparr>wtype = ''high_confidence'', message = High_confidence_message c,
                  severity = ''warning''\<rparr>,
                \<lparr>wtype = ''potential_trend_conflict'', message = Trend_conflict_message,
                  severity = ''warning''\<rparr>]"
    have "analyze_signal ob = Inr (ob\<lparr>o_warnings := Some ?ws\<rparr>)"
      using very_high Some
      by (simp add: analyze_signal_def t HIGH_CONFIDENCE_THRESHOLD_def)
    moreover have "map wtype ?ws = expected_warning_types (o_confidence ob)"
      using very_high Some by (simp add: expected_warning_types_def)
    ultimately show ?thesis by blast
  next
    case high
    let ?ws = "[\<lparr>wtype = ''high_confidence'', message = High_confidence_message c,
                  severity = ''warning''\<rparr>]"
    have "analyze_signal ob = Inr (ob\<lparr>o_warnings := Some ?ws\<rparr>)"
      using high Some
      by (simp add: analyze_signal_def t HIGH_CONFIDENCE_THRESHOLD_def)
    moreover have "map wtype ?ws = expected_warning_types (o_confidence ob)"
      using high Some by (simp add: expected_warning_types_def)
    ultimately show ?thesis by blast
  next
    case mid
    have "analyze_signal ob = Inr (ob\<lparr>o_warnings := Some []\<rparr>)"
      using mid Some
      by (simp add: analyze_signal_def t HIGH_CONFIDENCE_THRESHOLD_def
          LOW_CONFIDENCE_THRESHOLD_def)
    moreover have "map wtype [] = expected_warning_types (o_confidence ob)"
      using mid Some by (simp add: expected_warning_types_def)
    ultimately show ?thesis by blast
  next
    case low
    let ?ws = "[\<lparr>wtype = ''low_confidence'', message = Low_confidence_message c,
                  severity = ''info''\<rparr>]"
    have "analyze_signal ob = Inr (ob\<lparr>o_warnings := Some ?ws\<rparr>)"
      using low Some
      by (simp add: analyze_signal_def t HIGH_CONFIDENCE_THRESHOLD_def
          LOW_CONFIDENCE_THRESHOLD_def)
    moreover have "map wtype ?ws = expected_warning_types (o_confidence ob)"
      using low Some by (simp add: expected_warning_types_def)
    ultimately show ?thesis by blast
  qed
qed

lemma analyze_signal_annotated: "\<exists>a. analyze_signal ob = Inr a \<and> annotated ob a"
proof -
  obtain ws where r: "analyze_signal ob = Inr (ob\<lparr>o_warnings := Some ws\<rparr>)"
    and t: "map wtype ws = expected_warning_types (o_confidence ob)"
    using analyze_signal_total [of ob] by blast
  have "annotated ob (ob\<lparr>o_warnings := Some ws\<rparr>)"
    by (simp add: annotated_def warning_types_def t)
  with r show ?thesis by blast
qed

lemma analyze_all:
  "\<exists>as. analyze_confidence_warnings obs = Inr as \<and> list_all2 annotated obs as"
proof (induction obs)
  case Nil
  show ?case by simp
next
  case (Cons ob obs)
  obtain a where a: "analyze_signal ob = Inr a" "annotated ob a"
    using analyze_signal_annotated [of ob] by blast
  from Cons obtain as where as: "analyze_confidence_warnings obs = Inr as"
    "list_all2 annotated obs as"
    by blast
  have "analyze_confidence_warnings (ob # obs) = Inr (a # as)"
    by (simp add: a as)
  moreover have "list_all2 annotated (ob # obs) (a # as)"
    by (simp add: a as)
  ultimately show ?case by blast
qed

lemma expected_warning_types_mem:
  "(''high_confidence'' \<in> set (expected_warning_types (Some c))) = (c \<ge> 90)"
  "(''low_confidence'' \<in> set (expected_warning_types (Some c))) = (c < 50)"
  "(''potential_trend_conflict'' \<in> set (expected_warning_types (Some c))) = (c > 95)"
  "expected_warning_types None = []"
  by (simp_all add: expected_warning_types_def)

text \<open>
  C9: the annotator never raises; it returns a list of the same length and order in which
  element \<open>i\<close> is the input element \<open>i\<close> with only its \<open>warnings\<close> set; with a known
  confidence \<open>c\<close> the list holds \<open>high_confidence\<close> iff \<open>c \<ge> 90\<close>, \<open>low_confidence\<close> iff
  \<open>c < 50\<close> and \<open>potential_trend_conflict\<close> iff \<open>c > 95\<close>; with an unknown confidence
  it is empty.
\<close>

theorem C9_annotator:
  "\<exists>as. analyze_confidence_warnings obs = Inr as
      \<and> length as = length obs
      \<and> (\<forall>i < length obs.
            as ! i = (obs ! i)\<lparr>o_warnings := o_warnings (as ! i)\<rparr>
          \<and> o_warnings (as ! i) \<noteq> None
          \<and> (o_confidence (obs ! i) = None \<longrightarrow> warning_types (as ! i) = [])
          \<and> (\<forall>c. o_confidence (obs ! i) = Some c \<longrightarrow>
                 ((''high_confidence'' \<in> set (warning_types (as ! i))) = (c \<ge> 90))
               \<and> ((''low_confidence'' \<in> set (warning_types (as ! i))) = (c < 50))
               \<and> ((''potential_trend_conflict'' \<in> set (warning_types (as ! i))) = (c > 95))))"
proof -
  obtain as where r: "analyze_confidence_warnings obs = Inr as"
    and all: "list_all2 annotated obs as"
    using analyze_all [of obs] by blast
  have len: "length as = length obs"
    using all by (simp add: list_all2_lengthD)
  have each: "annotated (obs ! i) (as ! i)" if "i < length obs" for i
    using all that by (simp add: list_all2_nthD)
  have "as ! i = (obs ! i)\<lparr>o_warnings := o_warnings (as ! i)\<rparr>
          \<and> o_warnings (as ! i) \<noteq> None
          \<and> (o_confidence (obs ! i) = None \<longrightarrow> warning_types (as ! i) = [])
          \<and> (\<forall>c. o_confidence (obs ! i) = Some c \<longrightarrow>
                 ((''high_confidence'' \<in> set (warning_types (as ! i))) = (c \<ge> 90))
               \<and> ((''low_confidence'' \<in> set (warning_types (as ! i))) = (c < 50))
               \<and> ((''potential_trend_conflict'' \<in> set (warning_types (as ! i))) = (c > 95)))"
    if "i < length obs" for i
  proof -
    have a: "as ! i = (obs ! i)\<lparr>o_warnings := o_warnings (as ! i)\<rparr>"
      and b: "o_warnings (as ! i) \<noteq> None"
      and c: "warning_types (as ! i) = expected_warning_types (o_confidence (obs ! i))"
      using each [OF that] unfolding annotated_def by blast+
    show ?thesis
      using a b by (simp add: c expected_warning_types_mem)
  qed
  with r len show ?thesis by blast
qed

theorem C9_annotator_witness:
  "\<exists>as. analyze_confidence_warnings [sample_observation] = Inr as
      \<and> length as = 1
      \<and> ''high_confidence'' \<in> set (warning_types (as ! 0))
      \<and> ''potential_trend_conflict'' \<notin> set (warning_types (as ! 0))"
proof -
  have c: "o_confidence ([sample_observation] ! 0) = Some 91"
    by (simp add: sample_observation_def)
  show ?thesis
    using C9_annotator [of "[sample_observation]"] c by fastforce
qed

section \<open>Properties of the scheduler\<close>

lemma trigger_while_alive:
  "job_thread_alive s \<Longrightarrow> run_signal_processing_job s = s"
  by (simp add: run_signal_processing_job_def)

lemma manual_while_alive:
  "job_thread_alive s \<Longrightarrow> run_manual outcome s = (s, Manual_failure Already_running)"
  by (simp add: run_manual_def)

lemma step_keeps_count:
  "total_runs (step s ev) = scheduled_cycles (step s ev)" if "total_runs s = scheduled_cycles s"
proof (cases ev)
  case Scheduled_trigger
  then show ?thesis using that by (simp add: run_signal_processing_job_def)
next
  case (Job_thread_runs t oc t')
  then show ?thesis using that
    by (cases oc) (simp_all add: job_thread_target_def execute_signal_processing_def Let_def)
next
  case (Manual_run oc)
  then show ?thesis using that
    by (cases oc) (simp_all add: run_manual_def)
qed

lemma run_keeps_count:
  "total_runs s = scheduled_cycles s \<Longrightarrow>
   total_runs (run_events evs s) = scheduled_cycles (run_events evs s)"
  unfolding run_events_def
  by (induction evs arbitrary: s) (simp_all add: step_keeps_count)

lemma run_manual_ledger:
  "total_runs (fst (run_manual outcome s)) = total_runs s"
  "successful_runs (fst (run_manual outcome s)) = successful_runs s"
  "failed_runs (fst (run_manual outcome s)) = failed_runs s"
  "last_run_time (fst (run_manual outcome s)) = last_run_time s"
  "last_run_result (fst (run_manual outcome s)) = last_run_result s"
  "is_running (fst (run_manual outcome s)) = is_running s"
  by (cases outcome; simp add: run_manual_def)+

text \<open>
  C8, as stated, fails in its last part: one successful manual run on a fresh scheduler
  executes a cycle and leaves \<open>total_runs\<close> at zero.
\<close>

theorem C8_manual_cycle_counterexample:
  "total_runs (run_events [Manual_run (Cycle_returns sample_results)] initial_scheduler) = 0
   \<and> manual_cycles (run_events [Manual_run (Cycle_returns sample_results)] initial_scheduler) = 1
   \<and> scheduled_cycles (run_events [Manual_run (Cycle_returns sample_results)] initial_scheduler)
       = 0
   \<and> snd (run_manual (Cycle_returns sample_results) initial_scheduler)
       = Manual_success sample_results"
  by (simp add: run_events_def run_manual_def initial_scheduler_def job_thread_alive_def)

text \<open>
  C8 (amended): while the job thread is alive the scheduled trigger changes nothing (no
  second thread) and \<open>run_manual\<close> returns the "already running" failure without
  executing a cycle; and \<open>total_runs\<close> goes up by exactly one with each cycle executed
  by the job thread, so that after any sequence of events it equals the number of those
  cycles. Cycles executed by \<open>run_manual\<close> are not counted.
\<close>

theorem C8_concurrency_guard:
  "(job_thread_alive s \<longrightarrow> run_signal_processing_job s = s)
   \<and> (job_thread_alive s \<longrightarrow> run_manual outcome s = (s, Manual_failure Already_running))
   \<and> total_runs (run_events evs initial_scheduler)
       = scheduled_cycles (run_events evs initial_scheduler)
   \<and> total_runs (execute_signal_processing job_start outcome job_end s) = total_runs s + 1
   \<and> scheduled_cycles (execute_signal_processing job_start outcome job_end s)
       = scheduled_cycles s + 1
   \<and> (\<not> job_thread_alive s \<longrightarrow>
        manual_cycles (fst (run_manual outcome s)) = manual_cycles s + 1
        \<and> total_runs (fst (run_manual outcome s)) = total_runs s)"
proof -
  have "total_runs initial_scheduler = scheduled_cycles initial_scheduler"
    by (simp add: initial_scheduler_def)
  then have inv: "total_runs (run_events evs initial_scheduler)
       = scheduled_cycles (run_events evs initial_scheduler)"
    by (rule run_keeps_count)
  have ex: "total_runs (execute_signal_processing job_start outcome job_end s) = total_runs s + 1"
     "scheduled_cycles (execute_signal_processing job_start outcome job_end s)
       = scheduled_cycles s + 1"
    by (cases outcome; simp add: execute_signal_processing_def Let_def)+
  have man: "manual_cycles (fst (run_manual outcome s)) = manual_cycles s + 1
        \<and> total_runs (fst (run_manual outcome s)) = total_runs s"
    if "\<not> job_thread_alive s"
    using that by (cases outcome) (simp_all add: run_manual_def)
  show ?thesis
    using inv ex man by (simp add: trigger_while_alive manual_while_alive)
qed

theorem C8_concurrency_guard_witness:
  "run_signal_processing_job (initial_scheduler\<lparr>job_thread := Some True\<rparr>)
     = initial_scheduler\<lparr>job_thread := Some True\<rparr>
   \<and> run_manual (Cycle_returns sample_results) (initial_scheduler\<lparr>job_thread := Some True\<rparr>)
     = (initial_scheduler\<lparr>job_thread := Some True\<rparr>, Manual_failure Already_running)"
proof -
  have a: "job_thread_alive (initial_scheduler\<lparr>job_thread := Some True\<rparr>)"
    by (simp add: job_thread_alive_def)
  show ?thesis
    using C8_concurrency_guard [of "initial_scheduler\<lparr>job_thread := Some True\<rparr>"
        "Cycle_returns sample_results" "[]" 0 0] a
    by blast
qed

text \<open>
  C10: \<open>run_manual\<close> leaves \<open>total_runs\<close>, \<open>successful_runs\<close>, \<open>failed_runs\<close>,
  \<open>last_run_time\<close> and \<open>last_run_result\<close> as they were, whether the cycle returns, raises
  or is refused; \<open>get_status\<close> answers the same before and after.
\<close>

theorem C10_run_manual_frame:
  "total_runs (fst (run_manual outcome s)) = total_runs s
   \<and> successful_runs (fst (run_manual outcome s)) = successful_runs s
   \<and> failed_runs (fst (run_manual outcome s)) = failed_runs s
   \<and> last_run_time (fst (run_manual outcome s)) = last_run_time s
   \<and> last_run_result (fst (run_manual outcome s)) = last_run_result s
   \<and> get_status next_run (fst (run_manual outcome s)) = get_status next_run s"
  by (simp add: run_manual_ledger get_status_def)

section \<open>Properties of the upsert engine\<close>

lemma signal_eq_fields:
  "(r = r') = (immutable_fields r = immutable_fields r' \<and> mutable_fields r = mutable_fields r')"
  for r r' :: signal
  by (cases r, cases r') (auto simp: immutable_fields_def mutable_fields_def)

lemmas update_steps =
  update_current_price_def update_confidence_def update_correction_type_def
  update_correction_entry_def update_correction_tp_def update_correction_sl_def
  update_correction_confidence_def

lemma step_immutable:
  "immutable_fields (fst (update_current_price ob p)) = immutable_fields (fst p)"
  "immutable_fields (fst (update_confidence ob p)) = immutable_fields (fst p)"
  "immutable_fields (fst (update_correction_type cd p)) = immutable_fields (fst p)"
  "immutable_fields (fst (update_correction_entry cd p)) = immutable_fields (fst p)"
  "immutable_fields (fst (update_correction_tp cd p)) = immutable_fields (fst p)"
  "immutable_fields (fst (update_correction_sl cd p)) = immutable_fields (fst p)"
  "immutable_fields (fst (update_correction_confidence cd p)) = immutable_fields (fst p)"
  by (cases p; simp add: update_steps immutable_fields_def Let_def
      split: option.splits list.splits)+

lemma update_existing_immutable:
  "immutable_fields (fst (update_existing_signal existing ob)) = immutable_fields existing"
  by (simp add: update_existing_signal_def step_immutable Let_def split: option.splits)

lemma price_steps_flag:
  "snd (update_confidence ob (update_current_price ob (existing, False)))
     = (fst (mutable_fields (fst (update_confidence ob (update_current_price ob (existing, False)))))
          \<noteq> fst (mutable_fields existing))"
  "snd (mutable_fields (fst (update_confidence ob (update_current_price ob (existing, False)))))
     = snd (mutable_fields existing)"
  by (simp_all add: update_current_price_def update_confidence_def mutable_fields_def Let_def
      split: option.splits)

lemma correction_step_flag:
  "snd (update_correction_type cd p)
     = (snd p \<or> correction_type (fst (update_correction_type cd p)) \<noteq> correction_type (fst p))"
  "snd (update_correction_entry cd p)
     = (snd p \<or> correction_entry (fst (update_correction_entry cd p)) \<noteq> correction_entry (fst p))"
  "snd (update_correction_tp cd p)
     = (snd p \<or> correction_tp (fst (update_correction_tp cd p)) \<noteq> correction_tp (fst p))"
  "snd (update_correction_sl cd p)
     = (snd p \<or> correction_sl (fst (update_correction_sl cd p)) \<noteq> correction_sl (fst p))"
  "snd (update_correction_confidence cd p)
     = (snd p \<or> correction_confidence (fst (update_correction_confidence cd p))
                  \<noteq> correction_confidence (fst p))"
  by (cases p; simp add: update_steps split: option.splits list.splits; blast)+

lemma step_keeps:
  "confidence (fst (update_current_price ob p)) = confidence (fst p)"
  "correction_type (fst (update_current_price ob p)) = correction_type (fst p)"
  "correction_entry (fst (update_current_price ob p)) = correction_entry (fst p)"
  "correction_tp (fst (update_current_price ob p)) = correction_tp (fst p)"
  "correction_sl (fst (update_current_price ob p)) = correction_sl (fst p)"
  "correction_confidence (fst (update_current_price ob p)) = correction_confidence (fst p)"
  "current_price (fst (update_confidence ob p)) = current_price (fst p)"
  "correction_type (fst (update_confidence ob p)) = correction_type (fst p)"
  "correction_entry (fst (update_confidence ob p)) = correction_entry (fst p)"
  "correction_tp (fst (update_confidence ob p)) = correction_tp (fst p)"
  "correction_sl (fst (update_confidence ob p)) = correction_sl (fst p)"
  "correction_confidence (fst (update_confidence ob p)) = correction_confidence (fst p)"
  "current_price (fst (update_correction_type cd p)) = current_price (fst p)"
  "confidence (fst (update_correction_type cd p)) = confidence (fst p)"
  "correction_entry (fst (update_correction_type cd p)) = correction_entry (fst p)"
  "correction_tp (fst (update_correction_type cd p)) = correction_tp (fst p)"
  "correction_sl (fst (update_correction_type cd p)) = correction_sl (fst p)"
  "correction_confidence (fst (update_correction_type cd p)) = correction_confidence (fst p)"
  "current_price (fst (update_correction_entry cd p)) = current_price (fst p)"
  "confidence (fst (update_correction_entry cd p)) = confidence (fst p)"
  "correction_type (fst (update_correction_entry cd p)) = correction_type (fst p)"
  "correction_tp (fst (update_correction_entry cd p)) = correction_tp (fst p)"
  "correction_sl (fst (update_correction_entry cd p)) = correction_sl (fst p)"
  "correction_confidence (fst (update_correction_entry cd p)) = correction_confidence (fst p)"
  "current_price (fst (update_correction_tp cd p)) = current_price (fst p)"
  "confidence (fst (update_correction_tp cd p)) = confidence (fst p)"
  "correction_type (fst (update_correction_tp cd p)) = correction_type (fst p)"
  "correction_entry (fst (update_correction_tp cd p)) = correction_entry (fst p)"
  "correction_sl (fst (update_correction_tp cd p)) = correction_sl (fst p)"
  "correction_confidence (fst (update_correction_tp cd p)) = correction_confidence (fst p)"
  "current_price (fst (update_correction_sl cd p)) = current_price (fst p)"
  "confidence (fst (update_correction_sl cd p)) = confidence (fst p)"
  "correction_type (fst (update_correction_sl cd p)) = correction_type (fst p)"
  "correction_entry (fst (update_correction_sl cd p)) = correction_entry (fst p)"
  "correction_tp (fst (update_correction_sl cd p)) = correction_tp (fst p)"
  "correction_confidence (fst (update_correction_sl cd p)) = correction_confidence (fst p)"
  "current_price (fst (update_correction_confidence cd p)) = current_price (fst p)"
  "confidence (fst (update_correction_confidence cd p)) = confidence (fst p)"
  "correction_type (fst (update_correction_confidence cd p)) = correction_type (fst p)"
  "correction_entry (fst (update_correction_confidence cd p)) = correction_entry (fst p)"
  "correction_tp (fst (update_correction_confidence cd p)) = correction_tp (fst p)"
  "correction_sl (fst (update_correction_confidence cd p)) = correction_sl (fst p)"
  by (cases p; simp add: update_steps Let_def split: option.splits list.splits)+

lemma update_existing_flag:
  "snd (update_existing_signal existing ob)
     = (mutable_fields (fst (update_existing_signal existing ob)) \<noteq> mutable_fields existing)"
proof -
  define a where "a = update_confidence ob (update_current_price ob (existing, False))"
  have a1: "snd a = (current_price (fst a) \<noteq> current_price existing
                      \<or> confidence (fst a) \<noteq> confidence existing)"
    using price_steps_flag(1) [of ob existing]
    by (simp add: a_def mutable_fields_def)
  have a2: "correction_type (fst a) = correction_type existing"
    "correction_entry (fst a) = correction_entry existing"
    "correction_tp (fst a) = correction_tp existing"
    "correction_sl (fst a) = correction_sl existing"
    "correction_confidence (fst a) = correction_confidence existing"
    by (simp_all add: a_def step_keeps)
  show ?thesis
  proof (cases "o_correction ob")
    case None
    then have "update_existing_signal existing ob = a"
      by (simp add: update_existing_signal_def a_def)
    then show ?thesis
      by (simp add: mutable_fields_def a1 a2)
  next
    case (Some cd)
    define p1 where "p1 = update_correction_type cd a"
    define p2 where "p2 = update_correction_entry cd p1"
    define p3 where "p3 = update_correction_tp cd p2"
    define p4 where "p4 = update_correction_sl cd p3"
    define p5 where "p5 = update_correction_confidence cd p4"
    have r: "update_existing_signal existing ob = p5"
      using Some by (simp add: update_existing_signal_def a_def p1_def p2_def p3_def p4_def p5_def)
    have f1: "snd p1 = (snd a \<or> correction_type (fst p1) \<noteq> correction_type (fst a))"
      unfolding p1_def by (rule correction_step_flag)
    have f2: "snd p2 = (snd p1 \<or> correction_entry (fst p2) \<noteq> correction_entry (fst p1))"
      unfolding p2_def by (rule correction_step_flag)
    have f3: "snd p3 = (snd p2 \<or> correction_tp (fst p3) \<noteq> correction_tp (fst p2))"
      unfolding p3_def by (rule correction_step_flag)
    have f4: "snd p4 = (snd p3 \<or> correction_sl (fst p4) \<noteq> correction_sl (fst p3))"
      unfolding p4_def by (rule correction_step_flag)
    have f5: "snd p5 = (snd p4 \<or> correction_confidence (fst p5) \<noteq> correction_confidence (fst p4))"
      unfolding p5_def by (rule correction_step_flag)
    have k: "current_price (fst p5) = current_price (fst a)"
      "confidence (fst p5) = confidence (fst a)"
      "correction_type (fst p5) = correction_type (fst p1)"
      "correction_entry (fst p5) = correction_entry (fst p2)"
      "correction_tp (fst p5) = correction_tp (fst p3)"
      "correction_sl (fst p5) = correction_sl (fst p4)"
      "correction_entry (fst p1) = correction_entry (fst a)"
      "correction_tp (fst p2) = correction_tp (fst a)"
      "correction_sl (fst p3) = correction_sl (fst a)"
      "correction_confidence (fst p4) = correction_confidence (fst a)"
      by (simp_all add: p1_def p2_def p3_def p4_def p5_def step_keeps)
    have "snd p5 = (mutable_fields (fst p5) \<noteq> mutable_fields existing)"
      unfolding f5 f4 f3 f2 f1 a1 mutable_fields_def k a2 by auto
    then show ?thesis by (simp add: r)
  qed
qed

lemma same_contract_refl: "same_contract r r"
  by (simp add: same_contract_def)

lemma same_contract_trans:
  "same_contract a b \<Longrightarrow> same_contract b c \<Longrightarrow> same_contract a c"
  by (simp add: same_contract_def)

lemma immutable_same_contract:
  "immutable_fields r' = immutable_fields r \<Longrightarrow> same_contract r r'"
  by (simp add: immutable_fields_def same_contract_def)

lemma contract_kept_refl: "contract_kept rows rows"
  by (induction rows) (simp_all add: same_contract_refl)

lemma contract_kept_append: "contract_kept rows (rows @ more_rows)"
  by (induction rows) (simp_all add: same_contract_refl)

lemma contract_kept_trans:
  "contract_kept xs ys \<Longrightarrow> contract_kept ys zs \<Longrightarrow> contract_kept xs zs"
proof (induction xs ys arbitrary: zs rule: contract_kept.induct)
  case (1 rows')
  show ?case by simp
next
  case (2 r rows)
  then show ?case by simp
next
  case (3 r rows r' rows')
  then show ?case
    by (cases zs) (auto intro: same_contract_trans)
qed

lemma contract_kept_update_first:
  assumes "\<And>x. same_contract x (f x)"
  shows "contract_kept rows (update_first P f rows)"
  by (induction rows) (simp_all add: assms same_contract_refl contract_kept_refl)

lemma update_first_found:
  "find P xs = Some x \<Longrightarrow> update_first P (\<lambda>r. f x) xs = update_first P f xs"
  by (induction xs) (auto split: if_splits)

lemma length_update_first: "length (update_first P f xs) = length xs"
  by (induction xs) simp_all

lemma find_None_iff_no_match: "(find P xs = None) = (\<not> (\<exists>x \<in> set xs. P x))"
  by (auto simp: find_None_iff)

lemma fresh_match_spec: "fresh_match now ob = dedup_match_spec now ob"
  by (rule ext) (auto simp: fresh_match_def dedup_match_spec_def thirty_minutes_def)

lemma find_first_index:
  "find P xs = Some x \<Longrightarrow>
   \<exists>i < length xs. xs ! i = x \<and> P x \<and> (\<forall>j < i. \<not> P (xs ! j))
      \<and> update_first P f xs = xs[i := f x]"
proof (induction xs)
  case Nil
  then show ?case by simp
next
  case (Cons a xs)
  show ?case
  proof (cases "P a")
    case True
    with Cons.prems have "a = x" by simp
    with True have "0 < length (a # xs) \<and> (a # xs) ! 0 = x \<and> P x
        \<and> (\<forall>j < 0. \<not> P ((a # xs) ! j))
        \<and> update_first P f (a # xs) = (a # xs)[0 := f x]"
      by simp
    then show ?thesis by blast
  next
    case False
    with Cons.prems have "find P xs = Some x" by simp
    with Cons.IH obtain i where i: "i < length xs" "xs ! i = x" "P x"
      "\<forall>j < i. \<not> P (xs ! j)" "update_first P f xs = xs[i := f x]"
      by blast
    have before: "\<not> P ((a # xs) ! j)" if "j < Suc i" for j
      using that False i(4) by (cases j) simp_all
    have "Suc i < length (a # xs) \<and> (a # xs) ! Suc i = x \<and> P x
        \<and> (\<forall>j < Suc i. \<not> P ((a # xs) ! j))
        \<and> update_first P f (a # xs) = (a # xs)[Suc i := f x]"
      using i False before by simp
    then show ?thesis by blast
  qed
qed

lemma save_signal_raises:
  assumes "raises ob"
  shows "save_signal raises rejects now tk (st, res) ob =
           (st\<lparr>error_logs := error_logs st @
                 [\<lparr>el_source = ''SignalProcessor'',
                   el_message = Signal_error_message tk (o_timeframe ob)\<rparr>]\<rparr>,
            res\<lparr>total_signals := total_signals res + 1, errors := errors res + 1\<rparr>)"
  using assms by (simp add: save_signal_def find_existing_signal_def)

lemma save_signal_found:
  assumes "\<not> raises ob" "find (fresh_match now ob) (signals st) = Some existing"
  shows "save_signal raises rejects now tk (st, res) ob =
           (st\<lparr>signals := update_first (fresh_match now ob)
                              (\<lambda>r. fst (update_existing_signal r ob)) (signals st)\<rparr>,
            if snd (update_existing_signal existing ob)
            then res\<lparr>total_signals := total_signals res + 1,
                     updated_signals := updated_signals res + 1\<rparr>
            else res\<lparr>total_signals := total_signals res + 1\<rparr>)"
proof -
  have u: "update_first (fresh_match now ob) (\<lambda>r. fst (update_existing_signal existing ob))
             (signals st)
           = update_first (fresh_match now ob) (\<lambda>r. fst (update_existing_signal r ob))
             (signals st)"
    using assms(2) by (rule update_first_found)
  show ?thesis
    using assms
    by (simp add: save_signal_def find_existing_signal_def split_def Let_def u)
qed

lemma save_signal_created:
  assumes "\<not> raises ob" "find (fresh_match now ob) (signals st) = None"
    and "\<not> rejects (new_signal_row now st ob)"
  shows "save_signal raises rejects now tk (st, res) ob =
           (st\<lparr>signals := signals st @ [new_signal_row now st ob]\<rparr>,
            res\<lparr>total_signals := total_signals res + 1,
                saved_signals := saved_signals res + 1\<rparr>)"
  using assms
  by (simp add: save_signal_def find_existing_signal_def create_new_signal_def Let_def)

lemma save_signal_rejected:
  assumes "\<not> raises ob" "find (fresh_match now ob) (signals st) = None"
    and "rejects (new_signal_row now st ob)"
  shows "save_signal raises rejects now tk (st, res) ob =
           (st, res\<lparr>total_signals := total_signals res + 1\<rparr>)"
  using assms
  by (simp add: save_signal_def find_existing_signal_def create_new_signal_def Let_def)

lemma save_signal_cases:
  obtains (raised) "raises ob"
  | (found) existing where "\<not> raises ob"
      "find (fresh_match now ob) (signals st) = Some existing"
  | (created) "\<not> raises ob" "find (fresh_match now ob) (signals st) = None"
      "\<not> rejects (new_signal_row now st ob)"
  | (rejected) "\<not> raises ob" "find (fresh_match now ob) (signals st) = None"
      "rejects (new_signal_row now st ob)"
  by (cases "find (fresh_match now ob) (signals st)") auto

lemma save_signal_kept:
  "contract_kept (signals st) (signals (fst (save_signal raises rejects now tk (st, res) ob)))"
proof (cases rule: save_signal_cases
    [where raises = raises and ob = ob and now = now and st = st and rejects = rejects])
  case raised
  then show ?thesis
    by (simp add: save_signal_raises contract_kept_refl)
next
  case (found existing)
  have "same_contract x (fst (update_existing_signal x ob))" for x
    by (rule immutable_same_contract) (rule update_existing_immutable)
  then have "contract_kept (signals st)
      (update_first (fresh_match now ob) (\<lambda>r. fst (update_existing_signal r ob)) (signals st))"
    by (rule contract_kept_update_first)
  then show ?thesis
    using save_signal_found [where raises = raises and ob = ob, OF found, of rejects tk res]
    by simp
next
  case created
  show ?thesis
    using save_signal_created [where raises = raises and ob = ob and rejects = rejects,
        OF created, of tk res]
    by (simp add: contract_kept_append)
next
  case rejected
  show ?thesis
    using save_signal_rejected [where raises = raises and ob = ob and rejects = rejects,
        OF rejected, of tk res]
    by (simp add: contract_kept_refl)
qed

lemma fold_save_signal_kept:
  "contract_kept rows (signals (fst acc)) \<Longrightarrow>
   contract_kept rows (signals (fst (foldl (save_signal raises rejects now tk) acc obs)))"
proof (induction obs arbitrary: acc)
  case Nil
  then show ?case by simp
next
  case (Cons ob obs)
  obtain st res where acc: "acc = (st, res)" by (cases acc)
  have "contract_kept rows (signals (fst (save_signal raises rejects now tk acc ob)))"
    using Cons.prems save_signal_kept [of st raises rejects now tk res ob]
    unfolding acc by (auto intro: contract_kept_trans)
  then show ?case
    using Cons.IH by simp
qed

lemma save_ticker_signals_kept:
  "contract_kept rows (signals (fst acc)) \<Longrightarrow>
   contract_kept rows (signals (fst (save_ticker_signals raises rejects now acc entry)))"
proof -
  assume a: "contract_kept rows (signals (fst acc))"
  obtain st res where acc: "acc = (st, res)" by (cases acc)
  obtain tk obs where entry: "entry = (tk, obs)" by (cases entry)
  show ?thesis
  proof (cases "obs = []")
    case True
    then show ?thesis using a by (simp add: save_ticker_signals_def acc entry)
  next
    case False
    have "contract_kept rows (signals (fst (foldl (save_signal raises rejects now tk)
            (st, res\<lparr>batch_tickers_processed := batch_tickers_processed res + 1\<rparr>) obs)))"
      using a by (intro fold_save_signal_kept) (simp add: acc)
    then show ?thesis using False by (simp add: save_ticker_signals_def acc entry)
  qed
qed

lemma fold_save_ticker_kept:
  "contract_kept rows (signals (fst acc)) \<Longrightarrow>
   contract_kept rows (signals (fst (foldl (save_ticker_signals raises rejects now) acc entries)))"
  by (induction entries arbitrary: acc) (simp_all add: save_ticker_signals_kept)

lemma save_signals_batch_kept:
  "contract_kept (signals st)
     (signals (fst (save_signals_batch raises rejects now st signals_data)))"
  unfolding save_signals_batch_def
  by (rule fold_save_ticker_kept) (simp add: contract_kept_refl)

lemma single_batch:
  "save_signals_batch raises rejects now st [(tk, [ob])]
     = save_signal raises rejects now tk
         (st, empty_results\<lparr>batch_tickers_processed := 1\<rparr>) ob"
  by (simp add: save_signals_batch_def save_ticker_signals_def empty_results_def)

lemma merge_at_first_match:
  assumes "\<not> raises ob" "\<exists>r \<in> set (signals st). dedup_match_spec now ob r"
  shows "\<exists>i < length (signals st).
            dedup_match_spec now ob (signals st ! i)
          \<and> (\<forall>j < i. \<not> dedup_match_spec now ob (signals st ! j))
          \<and> save_signal raises rejects now tk (st, res) ob
              = (st\<lparr>signals := (signals st)
                       [i := fst (update_existing_signal (signals st ! i) ob)]\<rparr>,
                 if fst (update_existing_signal (signals st ! i) ob) \<noteq> signals st ! i
                 then res\<lparr>total_signals := total_signals res + 1,
                          updated_signals := updated_signals res + 1\<rparr>
                 else res\<lparr>total_signals := total_signals res + 1\<rparr>)"
proof -
  from assms(2) obtain existing
    where e: "find (fresh_match now ob) (signals st) = Some existing"
    using find_None_iff_no_match [of "fresh_match now ob" "signals st"]
    by (fastforce simp: fresh_match_spec)
  obtain i where i: "i < length (signals st)" "signals st ! i = existing"
    "\<forall>j < i. \<not> fresh_match now ob (signals st ! j)"
    "fresh_match now ob existing"
    "update_first (fresh_match now ob) (\<lambda>r. fst (update_existing_signal r ob)) (signals st)
       = (signals st)[i := fst (update_existing_signal existing ob)]"
    using find_first_index [OF e, of "\<lambda>r. fst (update_existing_signal r ob)"] by blast
  have flag: "snd (update_existing_signal existing ob)
                = (fst (update_existing_signal existing ob) \<noteq> existing)"
    using update_existing_immutable [of existing ob]
    by (simp add: update_existing_flag signal_eq_fields)
  have "save_signal raises rejects now tk (st, res) ob
              = (st\<lparr>signals := (signals st)
                       [i := fst (update_existing_signal (signals st ! i) ob)]\<rparr>,
                 if fst (update_existing_signal (signals st ! i) ob) \<noteq> signals st ! i
                 then res\<lparr>total_signals := total_signals res + 1,
                          updated_signals := updated_signals res + 1\<rparr>
                 else res\<lparr>total_signals := total_signals res + 1\<rparr>)"
    using save_signal_found [where raises = raises and ob = ob, OF assms(1) e, of rejects tk res]
    by (simp add: i(2,5) flag)
  with i show ?thesis
    by (auto simp: fresh_match_spec)
qed





lemma price_step_current:
  "current_price (fst (update_current_price ob p))
     = (if o_current_price ob \<noteq> 0 then Some (o_current_price ob)
        else current_price (fst p))"
proof -
  obtain existing u where p: "p = (existing, u)" by (cases p)
  show ?thesis
    unfolding p by (simp add: update_current_price_def Let_def)
qed

lemma price_step_confidence:
  "confidence (fst (update_confidence ob p))
     = (case o_confidence ob of
          None \<Rightarrow> confidence (fst p)
        | Some c \<Rightarrow> if c \<noteq> 0 then Some c else confidence (fst p))"
proof -
  obtain existing u where p: "p = (existing, u)" by (cases p)
  show ?thesis
    unfolding p by (cases "o_confidence ob") (simp_all add: update_confidence_def)
qed

lemma merged_current_price:
  "current_price (fst (update_existing_signal existing ob))
     = (if o_current_price ob \<noteq> 0 then Some (o_current_price ob)
        else current_price existing)"
proof (cases "o_correction ob")
  case None
  then show ?thesis
    by (simp add: update_existing_signal_def step_keeps price_step_current)
next
  case (Some cd)
  then show ?thesis
    by (simp add: update_existing_signal_def step_keeps price_step_current)
qed

lemma merged_confidence:
  "confidence (fst (update_existing_signal existing ob))
     = (case o_confidence ob of
          None \<Rightarrow> confidence existing
        | Some c \<Rightarrow> if c \<noteq> 0 then Some c else confidence existing)"
proof -
  have a: "confidence (fst (update_confidence ob (update_current_price ob (existing, False))))
     = (case o_confidence ob of
          None \<Rightarrow> confidence existing
        | Some c \<Rightarrow> if c \<noteq> 0 then Some c else confidence existing)"
    by (cases "o_confidence ob") (simp_all add: price_step_confidence step_keeps)
  show ?thesis
  proof (cases "o_correction ob")
    case None
    then show ?thesis
      using a by (simp add: update_existing_signal_def)
  next
    case (Some cd)
    then show ?thesis
      using a by (simp add: update_existing_signal_def step_keeps)
  qed
qed

lemma reload_btc: "next_session one_row_store = one_row_store"
  by (simp add: next_session_def one_row_store_def reload_signal_def numeric_column_def
      round_def)

lemma first_batch:
  "save_signals_batch never_raises never_rejects 0 empty_store [(''BTC'', [btc_observation])]
     = (one_row_store,
        \<lparr>total_signals = 1, saved_signals = 1, updated_signals = 0, errors = 0,
         batch_tickers_processed = 1\<rparr>)"
  by (simp add: save_signals_batch_def save_ticker_signals_def save_signal_def
      find_existing_signal_def never_raises_def never_rejects_def empty_store_def
      empty_results_def create_new_signal_def new_signal_row_def next_signal_id_def
      btc_observation_def one_row_store_def Let_def)

lemma btc_found:
  "find (fresh_match 60000000 btc_observation) (signals one_row_store)
     = Some (hd (signals one_row_store))"
  by (simp add: one_row_store_def fresh_match_def btc_observation_def thirty_minutes_def)

lemma btc_repeat_unchanged:
  "update_existing_signal (hd (signals one_row_store)) btc_observation
     = (hd (signals one_row_store), False)"
  by (simp add: update_existing_signal_def update_steps one_row_store_def btc_observation_def)

lemma float_19_8_stored: "numeric_column 8 float_19_8 = 19.8" "float_19_8 \<noteq> 19.8"
  by (simp_all add: numeric_column_def round_def float_19_8_def)

lemma float_91_3_stored: "numeric_column 2 float_91_3 = 91.3" "float_91_3 \<noteq> 91.3"
  by (simp_all add: numeric_column_def round_def float_91_3_def)

lemma numeric_whole: "numeric_column 8 20 = 20" "numeric_column 8 22 = 22"
  "numeric_column 8 19 = 19"
  by (simp_all add: numeric_column_def round_def)

lemma avax_first_batch:
  "next_session (fst (save_signals_batch never_raises never_rejects 0 empty_store
       [(''AVAX'', [avax_observation])])) = avax_row_store"
  by (simp add: save_signals_batch_def save_ticker_signals_def save_signal_def
      find_existing_signal_def never_raises_def never_rejects_def empty_store_def
      empty_results_def create_new_signal_def new_signal_row_def next_signal_id_def
      avax_observation_def avax_row_store_def avax_stored_def Let_def next_session_def
      reload_signal_def float_19_8_stored float_91_3_stored numeric_whole)

lemma avax_match:
  "dedup_match_spec 60000000 avax_observation avax_stored"
  by (simp add: dedup_match_spec_def avax_observation_def avax_stored_def)

lemma avax_merged:
  "fst (update_existing_signal avax_stored avax_observation)
     = avax_stored\<lparr>current_price := Some float_19_8, confidence := Some float_91_3\<rparr>"
  using float_19_8_stored(2) float_91_3_stored(2)
  by (simp add: update_existing_signal_def update_steps avax_stored_def avax_observation_def
      float_19_8_def float_91_3_def)

lemma avax_reload:
  "reload_signal (avax_stored\<lparr>current_price := Some float_19_8, confidence := Some float_91_3\<rparr>)
     = avax_stored"
  by (simp add: reload_signal_def avax_stored_def float_19_8_stored float_91_3_stored
      numeric_whole)

lemma avax_found:
  "find (fresh_match 60000000 avax_observation) (signals avax_row_store) = Some avax_stored"
  using avax_match by (simp add: avax_row_store_def fresh_match_spec)

lemma avax_flag: "snd (update_existing_signal avax_stored avax_observation)"
  using avax_merged float_19_8_stored(2)
  by (simp add: update_existing_flag mutable_fields_def avax_stored_def)

lemma avax_repeat:
  "save_signal never_raises never_rejects 60000000 ''AVAX'' (avax_row_store, empty_results)
       avax_observation
     = (\<lparr>signals = [avax_stored\<lparr>current_price := Some float_19_8,
                                  confidence := Some float_91_3\<rparr>],
         error_logs = []\<rparr>,
        \<lparr>total_signals = 1, saved_signals = 0, updated_signals = 1, errors = 0,
         batch_tickers_processed = 0\<rparr>)"
proof -
  have nr: "\<not> never_raises avax_observation"
    by (simp add: never_raises_def)
  have m: "fresh_match 60000000 avax_observation avax_stored"
    using avax_match by (simp add: fresh_match_spec)
  show ?thesis
    using save_signal_found [where raises = never_raises and ob = avax_observation,
        OF nr avax_found, of never_rejects "''AVAX''" empty_results]
    by (simp add: avax_flag avax_merged m avax_row_store_def empty_results_def)
qed

text \<open>
  C5, as stated, fails in its last part: the sample observation, saved at time 0 and
  submitted again unchanged one minute later to the store as the next session reads it,
  creates no row and changes none, and the batch counts it under neither
  \<open>saved_signals\<close> nor \<open>updated_signals\<close>.
\<close>

theorem C5_repeat_counterexample:
  "save_signals_batch never_raises never_rejects 60000000
     (next_session (fst (save_signals_batch never_raises never_rejects 0 empty_store
                           [(''BTC'', [btc_observation])])))
     [(''BTC'', [btc_observation])]
   = (one_row_store,
      \<lparr>total_signals = 1, saved_signals = 0, updated_signals = 0, errors = 0,
       batch_tickers_processed = 1\<rparr>)"
proof -
  have nr: "\<not> never_raises btc_observation"
    by (simp add: never_raises_def)
  have u: "update_first (fresh_match 60000000 btc_observation)
             (\<lambda>r. fst (update_existing_signal r btc_observation)) (signals one_row_store)
           = signals one_row_store"
    using btc_found btc_repeat_unchanged by (simp add: one_row_store_def)
  have "save_signal never_raises never_rejects 60000000 ''BTC''
          (one_row_store, empty_results\<lparr>batch_tickers_processed := 1\<rparr>) btc_observation
        = (one_row_store,
           \<lparr>total_signals = 1, saved_signals = 0, updated_signals = 0, errors = 0,
            batch_tickers_processed = 1\<rparr>)"
    using save_signal_found [where raises = never_raises and ob = btc_observation
        and now = 60000000 and st = one_row_store and tk = "''BTC''"
        and rejects = never_rejects
        and res = "empty_results\<lparr>batch_tickers_processed := 1\<rparr>", OF nr btc_found]
    by (simp add: u btc_repeat_unchanged empty_results_def)
  moreover have "next_session (fst (save_signals_batch never_raises never_rejects 0 empty_store
                      [(''BTC'', [btc_observation])])) = one_row_store"
    by (simp add: first_batch reload_btc)
  ultimately show ?thesis
    by (simp add: single_batch)
qed



text \<open>
  C5 (amended): the merge writes \<open>current_price\<close>, \<open>confidence\<close> and the correction
  columns only: every other column of the matched row, entry price, take-profit,
  stop-loss and direction among them, is unchanged whatever the observation carries,
  and no batch ever changes them on a row already stored. After the merge the row holds
  the observation's current price and confidence wherever these are present and not
  zero. A submission that matches a row creates none, and it is counted in
  \<open>updated_signals\<close> exactly when the merge changed a row of the session, that is, when
  a value it carries was not equal to the one held.
\<close>

theorem C5_merge_frame:
  "immutable_fields (fst (update_existing_signal existing ob)) = immutable_fields existing
   \<and> same_contract existing (fst (update_existing_signal existing ob))
   \<and> snd (update_existing_signal existing ob)
       = (fst (update_existing_signal existing ob) \<noteq> existing)
   \<and> current_price (fst (update_existing_signal existing ob))
       = (if o_current_price ob \<noteq> 0 then Some (o_current_price ob)
          else current_price existing)
   \<and> confidence (fst (update_existing_signal existing ob))
       = (case o_confidence ob of
            None \<Rightarrow> confidence existing
          | Some c \<Rightarrow> if c \<noteq> 0 then Some c else confidence existing)
   \<and> contract_kept (signals st)
       (signals (fst (save_signals_batch raises rejects now st signals_data)))
   \<and> (\<not> raises ob \<and> (\<exists>r \<in> set (signals st). dedup_match_spec now ob r) \<longrightarrow>
        length (signals (fst (save_signal raises rejects now tk (st, res) ob)))
          = length (signals st)
        \<and> contract_kept (signals st)
            (signals (fst (save_signal raises rejects now tk (st, res) ob)))
        \<and> saved_signals (snd (save_signal raises rejects now tk (st, res) ob))
            = saved_signals res
        \<and> updated_signals (snd (save_signal raises rejects now tk (st, res) ob))
            = updated_signals res
              + (if signals (fst (save_signal raises rejects now tk (st, res) ob))
                      \<noteq> signals st
                 then 1 else 0))"
proof -
  have frame: "immutable_fields (fst (update_existing_signal existing ob))
                 = immutable_fields existing"
    by (rule update_existing_immutable)
  then have contract: "same_contract existing (fst (update_existing_signal existing ob))"
    by (rule immutable_same_contract)
  have flag: "snd (update_existing_signal existing ob)
                = (fst (update_existing_signal existing ob) \<noteq> existing)"
    using frame by (simp add: update_existing_flag signal_eq_fields)
  have price: "current_price (fst (update_existing_signal existing ob))
       = (if o_current_price ob \<noteq> 0 then Some (o_current_price ob)
          else current_price existing)"
    by (rule merged_current_price)
  have conf: "confidence (fst (update_existing_signal existing ob))
       = (case o_confidence ob of
            None \<Rightarrow> confidence existing
          | Some c \<Rightarrow> if c \<noteq> 0 then Some c else confidence existing)"
    by (rule merged_confidence)
  have batch: "contract_kept (signals st)
                 (signals (fst (save_signals_batch raises rejects now st signals_data)))"
    by (rule save_signals_batch_kept)
  have merge: "length (signals (fst (save_signal raises rejects now tk (st, res) ob)))
          = length (signals st)
        \<and> contract_kept (signals st)
            (signals (fst (save_signal raises rejects now tk (st, res) ob)))
        \<and> saved_signals (snd (save_signal raises rejects now tk (st, res) ob))
            = saved_signals res
        \<and> updated_signals (snd (save_signal raises rejects now tk (st, res) ob))
            = updated_signals res
              + (if signals (fst (save_signal raises rejects now tk (st, res) ob))
                      \<noteq> signals st
                 then 1 else 0)"
    if r: "\<not> raises ob" and m: "\<exists>r \<in> set (signals st). dedup_match_spec now ob r"
  proof -
    obtain i where i: "i < length (signals st)"
      "save_signal raises rejects now tk (st, res) ob
         = (st\<lparr>signals := (signals st)
                  [i := fst (update_existing_signal (signals st ! i) ob)]\<rparr>,
            if fst (update_existing_signal (signals st ! i) ob) \<noteq> signals st ! i
            then res\<lparr>total_signals := total_signals res + 1,
                     updated_signals := updated_signals res + 1\<rparr>
            else res\<lparr>total_signals := total_signals res + 1\<rparr>)"
      using merge_at_first_match [where raises = raises and ob = ob and now = now and st = st
          and rejects = rejects and tk = tk and res = res, OF r m]
      by blast
    have k: "contract_kept (signals st)
            (signals (fst (save_signal raises rejects now tk (st, res) ob)))"
      by (rule save_signal_kept)
    have ch: "((signals st)[i := fst (update_existing_signal (signals st ! i) ob)]
                \<noteq> signals st)
              = (fst (update_existing_signal (signals st ! i) ob) \<noteq> signals st ! i)"
      using i(1) by (auto simp: list_update_same_conv)
    have "length (signals (fst (save_signal raises rejects now tk (st, res) ob)))
            = length (signals st)"
      "saved_signals (snd (save_signal raises rejects now tk (st, res) ob))
            = saved_signals res"
      "updated_signals (snd (save_signal raises rejects now tk (st, res) ob))
            = updated_signals res
              + (if signals (fst (save_signal raises rejects now tk (st, res) ob))
                      \<noteq> signals st
                 then 1 else 0)"
      by (simp_all add: i(2) ch)
    with k show ?thesis by blast
  qed
  show ?thesis
    using frame contract flag price conf batch merge by blast
qed

theorem C5_merge_frame_witness:
  "entry_price (hd (signals (fst (save_signal never_raises never_rejects 60000000 ''BTC''
       (one_row_store, empty_results)
       (btc_observation\<lparr>o_entry_price := 51000, o_confidence := Some 85\<rparr>))))) = 50000
   \<and> updated_signals (snd (save_signal never_raises never_rejects 60000000 ''BTC''
       (one_row_store, empty_results)
       (btc_observation\<lparr>o_entry_price := 51000, o_confidence := Some 85\<rparr>))) = 1
   \<and> next_session (fst (save_signals_batch never_raises never_rejects 0 empty_store
       [(''AVAX'', [avax_observation])])) = avax_row_store
   \<and> updated_signals (snd (save_signal never_raises never_rejects 60000000 ''AVAX''
       (avax_row_store, empty_results) avax_observation)) = 1
   \<and> next_session (fst (save_signal never_raises never_rejects 60000000 ''AVAX''
       (avax_row_store, empty_results) avax_observation)) = avax_row_store"
proof -
  let ?ob = "btc_observation\<lparr>o_entry_price := 51000, o_confidence := Some 85\<rparr>"
  let ?existing = "hd (signals one_row_store)"
  let ?S = "save_signal never_raises never_rejects 60000000 ''BTC''
             (one_row_store, empty_results) ?ob"
  let ?A = "save_signal never_raises never_rejects 60000000 ''AVAX''
             (avax_row_store, empty_results) avax_observation"
  have nr: "\<not> never_raises ?ob" "\<not> never_raises avax_observation"
    by (simp_all add: never_raises_def)
  have m: "\<exists>r \<in> set (signals one_row_store). dedup_match_spec 60000000 ?ob r"
    by (simp add: one_row_store_def dedup_match_spec_def btc_observation_def)
  have f: "find (fresh_match 60000000 ?ob) (signals one_row_store) = Some ?existing"
    by (simp add: one_row_store_def fresh_match_def btc_observation_def thirty_minutes_def)
  have ch: "fst (update_existing_signal ?existing ?ob) \<noteq> ?existing"
    by (simp add: update_existing_signal_def update_steps one_row_store_def
        btc_observation_def)
  have s: "signals (fst ?S) \<noteq> signals one_row_store"
    using save_signal_found [where raises = never_raises and ob = ?ob, OF nr(1) f,
        of never_rejects "''BTC''" empty_results] ch
    by (simp add: one_row_store_def fresh_match_def btc_observation_def thirty_minutes_def)
  have "contract_kept (signals one_row_store) (signals (fst ?S))
      \<and> length (signals (fst ?S)) = length (signals one_row_store)
      \<and> updated_signals (snd ?S) = updated_signals empty_results + 1"
    using C5_merge_frame [of ?existing ?ob one_row_store never_raises never_rejects 60000000
        "[]" "''BTC''" empty_results] nr(1) m s
    by simp
  then have btc: "entry_price (hd (signals (fst ?S))) = 50000 \<and> updated_signals (snd ?S) = 1"
    by (cases "signals (fst ?S)")
      (simp_all add: one_row_store_def same_contract_def empty_results_def)
  have am: "\<exists>r \<in> set (signals avax_row_store). dedup_match_spec 60000000 avax_observation r"
    using avax_match by (simp add: avax_row_store_def)
  have ne: "avax_stored\<lparr>current_price := Some float_19_8, confidence := Some float_91_3\<rparr>
              \<noteq> avax_stored"
  proof
    assume "avax_stored\<lparr>current_price := Some float_19_8, confidence := Some float_91_3\<rparr>
              = avax_stored"
    then have "current_price
                 (avax_stored\<lparr>current_price := Some float_19_8,
                              confidence := Some float_91_3\<rparr>)
               = current_price avax_stored"
      by (rule arg_cong)
    then show False
      using float_19_8_stored(2) by (simp add: avax_stored_def)
  qed
  have achanged: "signals (fst ?A) \<noteq> signals avax_row_store"
    unfolding avax_repeat by (simp add: avax_row_store_def ne)
  have "updated_signals (snd ?A) = updated_signals empty_results + 1"
    using C5_merge_frame [of avax_stored avax_observation avax_row_store never_raises
        never_rejects 60000000 "[]" "''AVAX''" empty_results] nr(2) am achanged
    by simp
  then have avax: "updated_signals (snd ?A) = 1"
    by (simp add: empty_results_def)
  have reloaded: "next_session (fst ?A) = avax_row_store"
    unfolding avax_repeat by (simp add: next_session_def avax_reload avax_row_store_def)
  show ?thesis
    using btc avax reloaded avax_first_batch by simp
qed

section \<open>Properties of the response parser and of the batch counts\<close>

lemma classify_range: "classify_signal_type t \<in> {''LONG'', ''SHORT'', ''HOLD''}"
  by (simp add: classify_signal_type_def)

lemma normalize_range: "normalize_signal_type v \<in> {''LONG'', ''SHORT'', ''HOLD''}"
proof (cases "truthy v")
  case False
  then show ?thesis by (simp add: normalize_signal_type_def)
next
  case True
  then show ?thesis
    using classify_range
    by (cases v) (simp_all add: normalize_signal_type_def)
qed

lemma missing_entry_rejected:
  "float_if_truthy (extract_numeric_field sf d [''entry'', ''entry_price'', ''price'']) = None
     \<Longrightarrow> parse_single_signal sf now d tk tf = None"
  by (simp add: parse_single_signal_def Let_def)

lemma parsed_observation:
  assumes "parse_single_signal sf now d tk tf = Some ob"
  shows "o_signal_type ob \<in> {''LONG'', ''SHORT'', ''HOLD''}"
    and "o_entry_price ob \<noteq> 0" and "o_ticker ob = tk" and "o_timeframe ob = tf"
proof -
  obtain e where e: "float_if_truthy
      (extract_numeric_field sf d [''entry'', ''entry_price'', ''price'']) = Some e"
    using assms missing_entry_rejected [of sf d now tk tf]
    by (cases "float_if_truthy
      (extract_numeric_field sf d [''entry'', ''entry_price'', ''price''])") auto
  have ne: "e \<noteq> 0"
    using e by (auto simp: float_if_truthy_def split: option.splits if_splits)
  let ?t = "normalize_signal_type (extract_field d
     [''type'', ''signal'', ''signal_type'', ''direction'', ''side''] (PStr ''HOLD''))"
  have t: "?t \<in> {''LONG'', ''SHORT'', ''HOLD''}"
    by (rule normalize_range)
  have ob: "o_signal_type ob = ?t \<and> o_entry_price ob = e \<and> o_ticker ob = tk
      \<and> o_timeframe ob = tf"
    using assms e t by (auto simp: parse_single_signal_def Let_def split: if_splits)
  show "o_signal_type ob \<in> {''LONG'', ''SHORT'', ''HOLD''}"
    using ob t by simp
  show "o_entry_price ob \<noteq> 0" using ob ne by simp
  show "o_ticker ob = tk" using ob by simp
  show "o_timeframe ob = tf" using ob by simp
qed

lemma flat_item_rejected:
  assumes "map_of item ''main_signal'' = None" "map_of item ''correction_signal'' = None"
    and "float_if_truthy
           (extract_numeric_field sf item [''entry'', ''entry_price'', ''price'']) = None"
  shows "parse_timeframe_item sf now item tk tf = []"
  using assms
  by (simp add: parse_timeframe_item_def parse_nested_signal_def missing_entry_rejected)

lemma rejected_item_skipped:
  assumes "item_timeframe item = Some tf" "parse_timeframe_item sf now item tk tf = []"
  shows "parse_list_items sf now tk (PDict item # rest) = parse_list_items sf now tk rest"
  using assms by (simp split: sum.splits)

lemma save_signal_counts:
  "total_signals (snd (save_signal raises rejects now tk (st, res) ob)) = total_signals res + 1"
  "errors (snd (save_signal raises rejects now tk (st, res) ob))
     = errors res + (if raises ob then 1 else 0)"
  "length (error_logs (fst (save_signal raises rejects now tk (st, res) ob)))
     = length (error_logs st) + (if raises ob then 1 else 0)"
proof -
  have "total_signals (snd (save_signal raises rejects now tk (st, res) ob))
          = total_signals res + 1
    \<and> errors (snd (save_signal raises rejects now tk (st, res) ob))
        = errors res + (if raises ob then 1 else 0)
    \<and> length (error_logs (fst (save_signal raises rejects now tk (st, res) ob)))
        = length (error_logs st) + (if raises ob then 1 else 0)"
  proof (cases rule: save_signal_cases
      [where raises = raises and ob = ob and now = now and st = st and rejects = rejects])
    case raised
    then show ?thesis by (simp add: save_signal_raises)
  next
    case (found existing)
    show ?thesis
      using save_signal_found [where raises = raises and ob = ob, OF found, of rejects tk res]
        found(1)
      by simp
  next
    case created
    show ?thesis
      using save_signal_created [where raises = raises and ob = ob and rejects = rejects,
          OF created, of tk res] created(1)
      by simp
  next
    case rejected
    show ?thesis
      using save_signal_rejected [where raises = raises and ob = ob and rejects = rejects,
          OF rejected, of tk res] rejected(1)
      by simp
  qed
  then show "total_signals (snd (save_signal raises rejects now tk (st, res) ob))
      = total_signals res + 1"
    and "errors (snd (save_signal raises rejects now tk (st, res) ob))
     = errors res + (if raises ob then 1 else 0)"
    and "length (error_logs (fst (save_signal raises rejects now tk (st, res) ob)))
     = length (error_logs st) + (if raises ob then 1 else 0)"
    by blast+
qed

lemma fold_save_signal_counts:
  "batch_counts (foldl (save_signal raises rejects now tk) acc obs)
     = (fst (batch_counts acc) + length obs,
        fst (snd (batch_counts acc)) + length (filter raises obs),
        snd (snd (batch_counts acc)) + length (filter raises obs))"
proof (induction obs arbitrary: acc)
  case Nil
  show ?case by simp
next
  case (Cons ob obs)
  obtain st res where acc: "acc = (st, res)" by (cases acc)
  have "batch_counts (save_signal raises rejects now tk acc ob)
          = (fst (batch_counts acc) + 1,
             fst (snd (batch_counts acc)) + (if raises ob then 1 else 0),
             snd (snd (batch_counts acc)) + (if raises ob then 1 else 0))"
    unfolding acc batch_counts_def by (simp add: save_signal_counts)
  then show ?case
    using Cons.IH [of "save_signal raises rejects now tk acc ob"] by simp
qed

lemma save_ticker_counts:
  "batch_counts (save_ticker_signals raises rejects now acc (tk, obs))
     = (fst (batch_counts acc) + length obs,
        fst (snd (batch_counts acc)) + length (filter raises obs),
        snd (snd (batch_counts acc)) + length (filter raises obs))"
proof -
  obtain st res where acc: "acc = (st, res)" by (cases acc)
  show ?thesis
  proof (cases "obs = []")
    case True
    then show ?thesis by (simp add: save_ticker_signals_def acc)
  next
    case False
    then show ?thesis
      by (simp add: save_ticker_signals_def acc fold_save_signal_counts) (simp add: batch_counts_def)
  qed
qed

lemma fold_save_ticker_counts:
  "batch_counts (foldl (save_ticker_signals raises rejects now) acc entries)
     = (fst (batch_counts acc) + length (concat (map snd entries)),
        fst (snd (batch_counts acc)) + length (filter raises (concat (map snd entries))),
        snd (snd (batch_counts acc)) + length (filter raises (concat (map snd entries))))"
proof (induction entries arbitrary: acc)
  case Nil
  show ?case by simp
next
  case (Cons entry entries)
  obtain tk obs where entry: "entry = (tk, obs)" by (cases entry)
  show ?case
    using Cons.IH [of "save_ticker_signals raises rejects now acc entry"]
    by (simp add: entry save_ticker_counts)
qed

lemma save_signals_batch_counts:
  "total_signals (snd (save_signals_batch raises rejects now st signals_data))
     = length (concat (map snd signals_data))"
  "errors (snd (save_signals_batch raises rejects now st signals_data))
     = length (filter raises (concat (map snd signals_data)))"
  "length (error_logs (fst (save_signals_batch raises rejects now st signals_data)))
     = length (error_logs st) + length (filter raises (concat (map snd signals_data)))"
  using fold_save_ticker_counts [of raises rejects now "(st, empty_results)" signals_data]
  by (simp_all add: save_signals_batch_def batch_counts_def empty_results_def)

lemma list_shape:
  "timeframes_are_text items \<Longrightarrow>
   parse_list_items sf now tk items
     = Inr (concat (map (list_element_signals sf now tk) items))"
proof (induction items)
  case Nil
  show ?case by simp
next
  case (Cons v items)
  from Cons.prems have rest: "timeframes_are_text items" and v: "timeframe_is_text v"
    by (simp_all add: timeframes_are_text_def)
  note ih = Cons.IH [OF rest]
  show ?case
  proof (cases v)
    case (PDict item)
    with v obtain tf where tf: "item_timeframe item = Some tf"
      by (auto simp: timeframe_is_text_def)
    show ?thesis
      by (simp add: PDict tf ih list_element_signals_def)
  qed (simp_all add: ih list_element_signals_def)
qed

lemma signals_shape:
  "timeframes_are_text items \<Longrightarrow>
   parse_signals_field sf now tk items
     = Inr (concat (map (signals_element_signals sf now tk) items))"
proof (induction items)
  case Nil
  show ?case by simp
next
  case (Cons v items)
  from Cons.prems have rest: "timeframes_are_text items" and v: "timeframe_is_text v"
    by (simp_all add: timeframes_are_text_def)
  note ih = Cons.IH [OF rest]
  show ?case
  proof (cases v)
    case (PDict item)
    with v obtain tf where tf: "item_timeframe item = Some tf"
      by (auto simp: timeframe_is_text_def)
    show ?thesis
      by (simp add: PDict tf ih signals_element_signals_def)
  qed (simp_all add: ih signals_element_signals_def)
qed

lemma list_response:
  assumes "items \<noteq> []" "timeframes_are_text items"
  shows "parse_signal_response sf now (PList items) tk
           = Inr (concat (map (list_element_signals sf now tk) items))"
  using assms by (simp add: parse_signal_response_def truthy_def list_shape)

lemma dict_response:
  assumes "d \<noteq> []" "timeframes_are_text (signals_elements d)"
  shows "parse_signal_response sf now (PDict d) tk
           = Inr (parse_timeframe_keys sf now tk d
                  @ concat (map (signals_element_signals sf now tk) (signals_elements d)))"
proof -
  have "(case map_of d ''signals'' of
           Some (PList items) \<Rightarrow> parse_signals_field sf now tk items
         | _ \<Rightarrow> Inr [])
        = Inr (concat (map (signals_element_signals sf now tk) (signals_elements d)))"
  proof (cases "map_of d ''signals''")
    case None
    then show ?thesis by (simp add: signals_elements_def)
  next
    case (Some v)
    show ?thesis
    proof (cases v)
      case (PList items)
      with Some assms(2) have "timeframes_are_text items"
        by (simp add: signals_elements_def)
      then show ?thesis
        by (simp add: Some PList signals_elements_def signals_shape)
    qed (simp_all add: Some signals_elements_def)
  qed
  then show ?thesis
    using assms(1) by (simp add: parse_signal_response_def truthy_def)
qed

lemma key_signals:
  "p \<in> set (case map_of d tf of
               Some (PDict signal_data) \<Rightarrow>
                 (if signal_data = [] then []
                  else case parse_single_signal sf now signal_data tk tf of
                         None \<Rightarrow> [] | Some parsed \<Rightarrow> [parsed])
             | _ \<Rightarrow> [])
   \<longleftrightarrow> (\<exists>sd. map_of d tf = Some (PDict sd) \<and> sd \<noteq> []
            \<and> parse_single_signal sf now sd tk tf = Some p)"
proof (cases "map_of d tf")
  case None
  then show ?thesis by simp
next
  case (Some v)
  show ?thesis
  proof (cases v)
    case (PDict sd)
    show ?thesis
      by (cases "parse_single_signal sf now sd tk tf") (auto simp: Some PDict)
  qed (simp_all add: Some)
qed

lemma concat_map_member:
  "p \<in> set (concat (map f xs)) \<longleftrightarrow> (\<exists>x \<in> set xs. p \<in> set (f x))"
  by auto

lemma timeframe_keys_signals:
  "p \<in> set (parse_timeframe_keys sf now tk d)
   \<longleftrightarrow> (\<exists>tf sd. tf \<in> {''15m'', ''1h'', ''4h'', ''1d''}
            \<and> map_of d tf = Some (PDict sd) \<and> sd \<noteq> []
            \<and> parse_single_signal sf now sd tk tf = Some p)"
proof -
  have "p \<in> set (parse_timeframe_keys sf now tk d)
        \<longleftrightarrow> (\<exists>tf \<in> set [''15m'', ''1h'', ''4h'', ''1d''].
               \<exists>sd. map_of d tf = Some (PDict sd) \<and> sd \<noteq> []
                 \<and> parse_single_signal sf now sd tk tf = Some p)"
    unfolding parse_timeframe_keys_def concat_map_member key_signals ..
  also have "\<dots> \<longleftrightarrow> (\<exists>tf sd. tf \<in> {''15m'', ''1h'', ''4h'', ''1d''}
            \<and> map_of d tf = Some (PDict sd) \<and> sd \<noteq> []
            \<and> parse_single_signal sf now sd tk tf = Some p)"
    unfolding Bex_def by (simp only: list.set) blast
  finally show ?thesis .
qed

lemma malformed_element_rejected:
  assumes "float_if_truthy
             (extract_numeric_field sf item [''entry'', ''entry_price'', ''price'']) = None"
  shows "signals_element_signals sf now tk (PDict item) = []"
  using assms
  by (cases "item_timeframe item")
    (simp_all add: signals_element_signals_def missing_entry_rejected)

lemma malformed_list_element_rejected:
  assumes "map_of item ''main_signal'' = None" "map_of item ''correction_signal'' = None"
    and "float_if_truthy
           (extract_numeric_field sf item [''entry'', ''entry_price'', ''price'']) = None"
  shows "list_element_signals sf now tk (PDict item) = []"
  using assms
  by (cases "item_timeframe item")
    (simp_all add: list_element_signals_def flat_item_rejected)

lemma normalize_plain:
  "normalize_signal_type (PStr ''LONG'') = ''LONG''"
  "normalize_signal_type (PStr ''SHORT'') = ''SHORT''"
  "normalize_signal_type (PStr ''HOLD'') = ''HOLD''"
  by (simp_all add: normalize_signal_type_def truthy_def strip_def is_space_def upper_def
      upper_char_def classify_signal_type_def)

lemma parse_flat_fields:
  "parse_timeframe_item sf 0 (flat_fields tf direction) ''BTC'' tf
     = [parsed_flat tf (normalize_signal_type (PStr direction))]"
  using normalize_range [of "PStr direction"]
  by (simp add: parse_timeframe_item_def parse_nested_signal_def parse_single_signal_def
      flat_fields_def extract_numeric_field_def py_float_def float_if_truthy_def Let_def
      parsed_flat_def)

lemma flat_timeframe: "item_timeframe (flat_fields tf direction) = Some tf"
  by (simp add: item_timeframe_def flat_fields_def)

lemma malformed_timeframe: "item_timeframe malformed_fields = Some ''1w''"
  by (simp add: item_timeframe_def malformed_fields_def)

lemma malformed_no_entry:
  "float_if_truthy
     (extract_numeric_field sf malformed_fields [''entry'', ''entry_price'', ''price'']) = None"
  by (simp add: malformed_fields_def extract_numeric_field_def float_if_truthy_def)

lemma malformed_item_rejected: "parse_timeframe_item sf now malformed_fields tk tf = []"
  by (rule flat_item_rejected) (simp_all add: malformed_no_entry, simp_all add: malformed_fields_def)

lemma analyze_flat:
  "analyze_signal (parsed_flat tf direction) = Inr (analyzed_flat tf direction)"
  by (simp add: analyze_signal_def check_trend_conflict_def parsed_flat_def analyzed_flat_def
      HIGH_CONFIDENCE_THRESHOLD_def LOW_CONFIDENCE_THRESHOLD_def)

lemma create_flat:
  "new_signal_row 0 st (analyzed_flat tf direction)
     = stored_flat (next_signal_id (signals st)) tf direction"
  by (simp add: new_signal_row_def analyzed_flat_def parsed_flat_def stored_flat_def Let_def)

lemma flat_match:
  "fresh_match 0 (analyzed_flat tf direction) (stored_flat n tf' direction') = (tf' = tf)"
  by (auto simp: fresh_match_def analyzed_flat_def parsed_flat_def stored_flat_def
      thirty_minutes_def)

lemma save_flat_new:
  assumes "find (fresh_match 0 (analyzed_flat tf direction)) (signals st) = None"
  shows "save_signal never_raises never_rejects 0 ''BTC'' (st, res) (analyzed_flat tf direction)
     = (st\<lparr>signals := signals st @ [stored_flat (next_signal_id (signals st)) tf direction]\<rparr>,
        res\<lparr>total_signals := total_signals res + 1, saved_signals := saved_signals res + 1\<rparr>)"
proof -
  have nr: "\<not> never_raises (analyzed_flat tf direction)"
    by (simp add: never_raises_def)
  have a: "\<not> never_rejects (new_signal_row 0 st (analyzed_flat tf direction))"
    by (simp add: never_rejects_def)
  show ?thesis
    using save_signal_created [where raises = never_raises and rejects = never_rejects
        and ob = "analyzed_flat tf direction", OF nr assms a, of "''BTC''" res]
    by (simp add: create_flat)
qed

lemma hold_parsed:
  "parse_signal_response no_text_numbers 0 hold_response ''BTC''
     = Inr [parsed_flat ''1h'' ''HOLD'']"
  by (simp add: parse_signal_response_def hold_response_def truthy_def flat_timeframe
      parse_flat_fields normalize_plain)

lemma hold_saved:
  "save_signals_batch never_raises never_rejects 0 empty_store [(''BTC'', [analyzed_flat ''1h'' ''HOLD''])]
     = (\<lparr>signals = [stored_flat 1 ''1h'' ''HOLD''], error_logs = []\<rparr>,
        \<lparr>total_signals = 1, saved_signals = 1, updated_signals = 0, errors = 0,
         batch_tickers_processed = 1\<rparr>)"
proof -
  have "save_signal never_raises never_rejects 0 ''BTC''
          (empty_store, empty_results\<lparr>batch_tickers_processed := 1\<rparr>)
          (analyzed_flat ''1h'' ''HOLD'')
        = (\<lparr>signals = [stored_flat 1 ''1h'' ''HOLD''], error_logs = []\<rparr>,
           \<lparr>total_signals = 1, saved_signals = 1, updated_signals = 0, errors = 0,
            batch_tickers_processed = 1\<rparr>)"
    by (subst save_flat_new) (simp_all add: empty_store_def empty_results_def next_signal_id_def)
  then show ?thesis
    by (simp add: save_signals_batch_def save_ticker_signals_def empty_results_def)
qed

text \<open>
  C6: the claim that a HOLD observation is never persisted fails on the code. A response
  with one HOLD item that has an entry price is parsed into an observation of direction
  \<open>HOLD\<close>, annotated, and saved on an empty store as a new row with
  \<open>signal_type = 'HOLD'\<close>, counted in \<open>saved_signals\<close>.
\<close>

theorem C6_hold_persisted:
  "parse_signal_response no_text_numbers 0 hold_response ''BTC''
     = Inr [parsed_flat ''1h'' ''HOLD'']
   \<and> analyze_confidence_warnings [parsed_flat ''1h'' ''HOLD'']
     = Inr [analyzed_flat ''1h'' ''HOLD'']
   \<and> save_signals_batch never_raises never_rejects 0 empty_store [(''BTC'', [analyzed_flat ''1h'' ''HOLD''])]
     = (\<lparr>signals = [stored_flat 1 ''1h'' ''HOLD''], error_logs = []\<rparr>,
        \<lparr>total_signals = 1, saved_signals = 1, updated_signals = 0, errors = 0,
         batch_tickers_processed = 1\<rparr>)
   \<and> signal_type (stored_flat 1 ''1h'' ''HOLD'') = ''HOLD''"
  by (simp add: hold_parsed hold_saved analyze_flat) (simp add: stored_flat_def)

lemma five_parsed:
  "parse_signal_response no_text_numbers 0 five_item_response ''BTC''
     = Inr [parsed_flat ''15m'' ''LONG'', parsed_flat ''1h'' ''SHORT'',
            parsed_flat ''4h'' ''LONG'', parsed_flat ''1d'' ''HOLD'']"
  by (simp add: parse_signal_response_def five_item_response_def truthy_def flat_timeframe
      malformed_timeframe parse_flat_fields malformed_item_rejected normalize_plain)

lemma four_parsed:
  "parse_signal_response no_text_numbers 0 four_and_malformed_response ''BTC''
     = Inr [parsed_flat ''15m'' ''LONG'', parsed_flat ''1h'' ''SHORT'',
            parsed_flat ''4h'' ''LONG'', parsed_flat ''1d'' ''SHORT'']"
  by (simp add: parse_signal_response_def four_and_malformed_response_def truthy_def
      flat_timeframe malformed_timeframe parse_flat_fields malformed_item_rejected
      normalize_plain)

lemma four_flat_saved:
  assumes "distinct [t1, t2, t3, t4]"
  shows "save_signals_batch never_raises never_rejects 0 empty_store
           [(''BTC'', [analyzed_flat t1 d1, analyzed_flat t2 d2,
                       analyzed_flat t3 d3, analyzed_flat t4 d4])]
     = (\<lparr>signals = [stored_flat 1 t1 d1, stored_flat 2 t2 d2,
                     stored_flat 3 t3 d3, stored_flat 4 t4 d4],
         error_logs = []\<rparr>,
        \<lparr>total_signals = 4, saved_signals = 4, updated_signals = 0, errors = 0,
         batch_tickers_processed = 1\<rparr>)"
proof -
  let ?r0 = "empty_results\<lparr>batch_tickers_processed := 1\<rparr>"
  let ?s1 = "\<lparr>signals = [stored_flat 1 t1 d1], error_logs = []\<rparr>"
  let ?s2 = "\<lparr>signals = [stored_flat 1 t1 d1, stored_flat 2 t2 d2], error_logs = []\<rparr>"
  let ?s3 = "\<lparr>signals = [stored_flat 1 t1 d1, stored_flat 2 t2 d2, stored_flat 3 t3 d3],
              error_logs = []\<rparr>"
  let ?s4 = "\<lparr>signals = [stored_flat 1 t1 d1, stored_flat 2 t2 d2, stored_flat 3 t3 d3,
                stored_flat 4 t4 d4], error_logs = []\<rparr>"
  have ids: "signal_id (stored_flat n tf d) = n" for n tf d
    by (simp add: stored_flat_def)
  have a1: "save_signal never_raises never_rejects 0 ''BTC'' (empty_store, ?r0) (analyzed_flat t1 d1)
              = (?s1, ?r0\<lparr>total_signals := 1, saved_signals := 1\<rparr>)"
    by (subst save_flat_new)
      (simp_all add: empty_store_def empty_results_def next_signal_id_def)
  have a2: "save_signal never_raises never_rejects 0 ''BTC'' (?s1, ?r0\<lparr>total_signals := 1, saved_signals := 1\<rparr>)
              (analyzed_flat t2 d2)
              = (?s2, ?r0\<lparr>total_signals := 2, saved_signals := 2\<rparr>)"
    using assms
    by (subst save_flat_new)
      (auto simp: empty_results_def next_signal_id_def flat_match ids eval_nat_numeral)
  have a3: "save_signal never_raises never_rejects 0 ''BTC'' (?s2, ?r0\<lparr>total_signals := 2, saved_signals := 2\<rparr>)
              (analyzed_flat t3 d3)
              = (?s3, ?r0\<lparr>total_signals := 3, saved_signals := 3\<rparr>)"
    using assms
    by (subst save_flat_new)
      (auto simp: empty_results_def next_signal_id_def flat_match ids eval_nat_numeral)
  have a4: "save_signal never_raises never_rejects 0 ''BTC'' (?s3, ?r0\<lparr>total_signals := 3, saved_signals := 3\<rparr>)
              (analyzed_flat t4 d4)
              = (?s4, ?r0\<lparr>total_signals := 4, saved_signals := 4\<rparr>)"
    using assms
    by (subst save_flat_new)
      (auto simp: empty_results_def next_signal_id_def flat_match ids eval_nat_numeral)
  have "foldl (save_signal never_raises never_rejects 0 ''BTC'') (empty_store, ?r0)
          [analyzed_flat t1 d1, analyzed_flat t2 d2, analyzed_flat t3 d3, analyzed_flat t4 d4]
        = (?s4, ?r0\<lparr>total_signals := 4, saved_signals := 4\<rparr>)"
    unfolding foldl_Cons foldl_Nil a1 a2 a3 a4 by (rule refl)
  then show ?thesis
    by (simp add: save_signals_batch_def save_ticker_signals_def empty_results_def)
qed

text \<open>
  C7, as stated, fails on its own example: of five items, one HOLD and one without entry
  price, the parser drops the one without entry price, and the batch of the other four
  on an empty store counts total 4, created 4, updated 0, errors 0, with nothing
  written to the error log.
\<close>

theorem C7_batch_counterexample:
  "parse_signal_response no_text_numbers 0 five_item_response ''BTC''
     = Inr [parsed_flat ''15m'' ''LONG'', parsed_flat ''1h'' ''SHORT'',
            parsed_flat ''4h'' ''LONG'', parsed_flat ''1d'' ''HOLD'']
   \<and> analyze_confidence_warnings
       [parsed_flat ''15m'' ''LONG'', parsed_flat ''1h'' ''SHORT'',
        parsed_flat ''4h'' ''LONG'', parsed_flat ''1d'' ''HOLD'']
     = Inr [analyzed_flat ''15m'' ''LONG'', analyzed_flat ''1h'' ''SHORT'',
            analyzed_flat ''4h'' ''LONG'', analyzed_flat ''1d'' ''HOLD'']
   \<and> save_signals_batch never_raises never_rejects 0 empty_store
       [(''BTC'', [analyzed_flat ''15m'' ''LONG'', analyzed_flat ''1h'' ''SHORT'',
                   analyzed_flat ''4h'' ''LONG'', analyzed_flat ''1d'' ''HOLD''])]
     = (\<lparr>signals = [stored_flat 1 ''15m'' ''LONG'', stored_flat 2 ''1h'' ''SHORT'',
                     stored_flat 3 ''4h'' ''LONG'', stored_flat 4 ''1d'' ''HOLD''],
         error_logs = []\<rparr>,
        \<lparr>total_signals = 4, saved_signals = 4, updated_signals = 0, errors = 0,
         batch_tickers_processed = 1\<rparr>)"
proof -
  have d: "distinct [''15m'', ''1h'', ''4h'', ''1d'']" by simp
  show ?thesis
    by (simp add: five_parsed analyze_flat four_flat_saved [OF d])
qed

lemma parse_single_flat:
  "parse_single_signal sf 0 (flat_fields tf direction) ''BTC'' tf'
     = Some (parsed_keyed tf' (normalize_signal_type (PStr direction)))"
  using normalize_range [of "PStr direction"]
  by (simp add: parse_single_signal_def flat_fields_def extract_numeric_field_def
      py_float_def float_if_truthy_def Let_def parsed_flat_def parsed_keyed_def)

lemma keyed_signals_elements:
  "signals_elements keyed_fields
     = [PDict malformed_fields, PDict (flat_fields ''4h'' ''SHORT'')]"
  by (simp add: signals_elements_def keyed_fields_def)

lemma keyed_timeframe_keys:
  "parse_timeframe_keys sf 0 ''BTC'' keyed_fields = [parsed_keyed ''15m'' ''LONG'']"
proof -
  have k: "map_of keyed_fields ''15m'' = Some (PDict (flat_fields ''15m'' ''LONG''))"
    "map_of keyed_fields ''1h'' = Some (PDict malformed_fields)"
    "map_of keyed_fields ''4h'' = None"
    "map_of keyed_fields ''1d'' = None"
    by (simp_all add: keyed_fields_def)
  have n: "flat_fields ''15m'' ''LONG'' \<noteq> []" "malformed_fields \<noteq> []"
    by (simp_all add: flat_fields_def malformed_fields_def)
  have m: "parse_single_signal sf 0 malformed_fields ''BTC'' ''1h'' = None"
    by (rule missing_entry_rejected) (rule malformed_no_entry)
  show ?thesis
    by (simp add: parse_timeframe_keys_def k n m parse_single_flat normalize_plain)
qed

text \<open>
  C7 (amended): in every shape of response, a list, the list under the key \<open>signals\<close>
  of a dict, and the timeframe keys of a dict, an item whose entry price is missing,
  unreadable or zero is rejected by the parser alone: it yields no observation, and the
  other items are parsed as if it were not there, each contributing what it contributes
  on its own. Every observation the parser does yield has direction \<open>LONG\<close>, \<open>SHORT\<close>
  or \<open>HOLD\<close> and a non-zero entry price, so no malformed observation reaches the batch.
  The batch counts in \<open>total_signals\<close> the observations it was given, and in \<open>errors\<close>,
  with one error log row each, exactly those whose store lookup raised.
\<close>

theorem C7_malformed_rejected:
  "(float_if_truthy (extract_numeric_field sf d [''entry'', ''entry_price'', ''price'']) = None
      \<longrightarrow> parse_single_signal sf now d tk tf = None)
   \<and> (parse_single_signal sf now d tk tf = Some ob
      \<longrightarrow> o_signal_type ob \<in> {''LONG'', ''SHORT'', ''HOLD''} \<and> o_entry_price ob \<noteq> 0)
   \<and> (map_of item ''main_signal'' = None \<and> map_of item ''correction_signal'' = None
       \<and> float_if_truthy
            (extract_numeric_field sf item [''entry'', ''entry_price'', ''price'']) = None
      \<longrightarrow> parse_timeframe_item sf now item tk tf = []
          \<and> list_element_signals sf now tk (PDict item) = [])
   \<and> (float_if_truthy
         (extract_numeric_field sf item [''entry'', ''entry_price'', ''price'']) = None
      \<longrightarrow> signals_element_signals sf now tk (PDict item) = [])
   \<and> (item_timeframe item = Some tf \<and> parse_timeframe_item sf now item tk tf = []
      \<longrightarrow> parse_list_items sf now tk (PDict item # rest) = parse_list_items sf now tk rest)
   \<and> (items \<noteq> [] \<and> timeframes_are_text items
      \<longrightarrow> parse_signal_response sf now (PList items) tk
            = Inr (concat (map (list_element_signals sf now tk) items)))
   \<and> (resp \<noteq> [] \<and> timeframes_are_text (signals_elements resp)
      \<longrightarrow> parse_signal_response sf now (PDict resp) tk
            = Inr (parse_timeframe_keys sf now tk resp
                   @ concat (map (signals_element_signals sf now tk)
                               (signals_elements resp))))
   \<and> (p \<in> set (parse_timeframe_keys sf now tk resp)
      \<longleftrightarrow> (\<exists>key sd. key \<in> {''15m'', ''1h'', ''4h'', ''1d''}
               \<and> map_of resp key = Some (PDict sd) \<and> sd \<noteq> []
               \<and> parse_single_signal sf now sd tk key = Some p))
   \<and> total_signals (snd (save_signals_batch raises rejects now st signals_data))
       = length (concat (map snd signals_data))
   \<and> errors (snd (save_signals_batch raises rejects now st signals_data))
       = length (filter raises (concat (map snd signals_data)))
   \<and> length (error_logs (fst (save_signals_batch raises rejects now st signals_data)))
       = length (error_logs st) + length (filter raises (concat (map snd signals_data)))"
proof -
  have single: "float_if_truthy
        (extract_numeric_field sf d [''entry'', ''entry_price'', ''price'']) = None
      \<longrightarrow> parse_single_signal sf now d tk tf = None"
    using missing_entry_rejected [of sf d now tk tf] by blast
  have range: "parse_single_signal sf now d tk tf = Some ob
      \<longrightarrow> o_signal_type ob \<in> {''LONG'', ''SHORT'', ''HOLD''} \<and> o_entry_price ob \<noteq> 0"
    using parsed_observation(1,2) [of sf now d tk tf ob] by blast
  have flat: "map_of item ''main_signal'' = None \<and> map_of item ''correction_signal'' = None
       \<and> float_if_truthy
            (extract_numeric_field sf item [''entry'', ''entry_price'', ''price'']) = None
      \<longrightarrow> parse_timeframe_item sf now item tk tf = []
          \<and> list_element_signals sf now tk (PDict item) = []"
    using flat_item_rejected [of item sf now tk tf]
      malformed_list_element_rejected [of item sf now tk]
    by blast
  have element: "float_if_truthy
         (extract_numeric_field sf item [''entry'', ''entry_price'', ''price'']) = None
      \<longrightarrow> signals_element_signals sf now tk (PDict item) = []"
    using malformed_element_rejected [of sf item now tk] by blast
  have skipped: "item_timeframe item = Some tf \<and> parse_timeframe_item sf now item tk tf = []
      \<longrightarrow> parse_list_items sf now tk (PDict item # rest) = parse_list_items sf now tk rest"
    using rejected_item_skipped [of item tf sf now tk rest] by blast
  have lists: "items \<noteq> [] \<and> timeframes_are_text items
      \<longrightarrow> parse_signal_response sf now (PList items) tk
            = Inr (concat (map (list_element_signals sf now tk) items))"
    using list_response [of items sf now tk] by blast
  have dicts: "resp \<noteq> [] \<and> timeframes_are_text (signals_elements resp)
      \<longrightarrow> parse_signal_response sf now (PDict resp) tk
            = Inr (parse_timeframe_keys sf now tk resp
                   @ concat (map (signals_element_signals sf now tk)
                               (signals_elements resp)))"
    using dict_response [of resp sf now tk] by blast
  have keys: "p \<in> set (parse_timeframe_keys sf now tk resp)
      \<longleftrightarrow> (\<exists>key sd. key \<in> {''15m'', ''1h'', ''4h'', ''1d''}
               \<and> map_of resp key = Some (PDict sd) \<and> sd \<noteq> []
               \<and> parse_single_signal sf now sd tk key = Some p)"
    by (rule timeframe_keys_signals)
  note counts = save_signals_batch_counts [of raises rejects now st signals_data]
  show ?thesis
    using single range flat element skipped lists dicts keys counts
    by (intro conjI)
qed

theorem C7_malformed_rejected_witness:
  "parse_single_signal no_text_numbers 0 malformed_fields ''BTC'' ''1w'' = None
   \<and> parse_list_items no_text_numbers 0 ''BTC''
       [PDict malformed_fields, PDict (flat_fields ''4h'' ''LONG'')]
     = parse_list_items no_text_numbers 0 ''BTC'' [PDict (flat_fields ''4h'' ''LONG'')]
   \<and> parse_signal_response no_text_numbers 0 four_and_malformed_response ''BTC''
     = Inr [parsed_flat ''15m'' ''LONG'', parsed_flat ''1h'' ''SHORT'',
            parsed_flat ''4h'' ''LONG'', parsed_flat ''1d'' ''SHORT'']
   \<and> parse_signal_response no_text_numbers 0 keyed_response ''BTC''
     = Inr [parsed_keyed ''15m'' ''LONG'', parsed_keyed ''4h'' ''SHORT'']
   \<and> parsed_keyed ''15m'' ''LONG''
       \<in> set (parse_timeframe_keys no_text_numbers 0 ''BTC'' keyed_fields)
   \<and> save_signals_batch never_raises never_rejects 0 empty_store
       [(''BTC'', [analyzed_flat ''15m'' ''LONG'', analyzed_flat ''1h'' ''SHORT'',
                   analyzed_flat ''4h'' ''LONG'', analyzed_flat ''1d'' ''SHORT''])]
     = (\<lparr>signals = [stored_flat 1 ''15m'' ''LONG'', stored_flat 2 ''1h'' ''SHORT'',
                     stored_flat 3 ''4h'' ''LONG'', stored_flat 4 ''1d'' ''SHORT''],
         error_logs = []\<rparr>,
        \<lparr>total_signals = 4, saved_signals = 4, updated_signals = 0, errors = 0,
         batch_tickers_processed = 1\<rparr>)"
proof -
  let ?items = "[PDict (flat_fields ''15m'' ''LONG''), PDict (flat_fields ''1h'' ''SHORT''),
                 PDict malformed_fields, PDict (flat_fields ''4h'' ''LONG''),
                 PDict (flat_fields ''1d'' ''SHORT'')]"
  have d: "distinct [''15m'', ''1h'', ''4h'', ''1d'']" by simp
  have m: "map_of malformed_fields ''main_signal'' = None
             \<and> map_of malformed_fields ''correction_signal'' = None"
    by (simp add: malformed_fields_def)
  have tft: "timeframes_are_text ?items" "timeframes_are_text (signals_elements keyed_fields)"
    by (simp_all add: timeframes_are_text_def timeframe_is_text_def flat_timeframe
        malformed_timeframe keyed_signals_elements)
  have ne: "?items \<noteq> []" "keyed_fields \<noteq> []"
    by (simp_all add: keyed_fields_def)
  have key: "\<exists>key sd. key \<in> {''15m'', ''1h'', ''4h'', ''1d''}
               \<and> map_of keyed_fields key = Some (PDict sd) \<and> sd \<noteq> []
               \<and> parse_single_signal no_text_numbers 0 sd ''BTC'' key
                   = Some (parsed_keyed ''15m'' ''LONG'')"
  proof (intro exI conjI)
    show "''15m'' \<in> {''15m'', ''1h'', ''4h'', ''1d''}" by simp
    show "map_of keyed_fields ''15m'' = Some (PDict (flat_fields ''15m'' ''LONG''))"
      by (simp add: keyed_fields_def)
    show "flat_fields ''15m'' ''LONG'' \<noteq> []"
      by (simp add: flat_fields_def)
    show "parse_single_signal no_text_numbers 0 (flat_fields ''15m'' ''LONG'') ''BTC'' ''15m''
            = Some (parsed_keyed ''15m'' ''LONG'')"
      by (simp add: parse_single_flat normalize_plain)
  qed
  note t = C7_malformed_rejected [where sf = no_text_numbers and d = malformed_fields
      and now = 0 and tk = "''BTC''" and tf = "''1w''" and ob = undefined
      and item = malformed_fields and rest = "[PDict (flat_fields ''4h'' ''LONG'')]"
      and items = ?items and resp = keyed_fields and p = "parsed_keyed ''15m'' ''LONG''"
      and raises = never_raises and rejects = never_rejects and st = empty_store
      and signals_data = "[]"]
  have a: "parse_single_signal no_text_numbers 0 malformed_fields ''BTC'' ''1w'' = None"
    using t malformed_no_entry [of no_text_numbers] by blast
  have b: "parse_list_items no_text_numbers 0 ''BTC''
       [PDict malformed_fields, PDict (flat_fields ''4h'' ''LONG'')]
     = parse_list_items no_text_numbers 0 ''BTC'' [PDict (flat_fields ''4h'' ''LONG'')]"
    using t malformed_no_entry [of no_text_numbers] malformed_timeframe m by blast
  have e: "list_element_signals no_text_numbers 0 ''BTC'' (PDict malformed_fields) = []"
    "signals_element_signals no_text_numbers 0 ''BTC'' (PDict malformed_fields) = []"
    using t malformed_no_entry [of no_text_numbers] m by blast+
  have "parse_signal_response no_text_numbers 0 (PList ?items) ''BTC''
          = Inr (concat (map (list_element_signals no_text_numbers 0 ''BTC'') ?items))"
    using t ne(1) tft(1) by blast
  then have c: "parse_signal_response no_text_numbers 0 four_and_malformed_response ''BTC''
     = Inr [parsed_flat ''15m'' ''LONG'', parsed_flat ''1h'' ''SHORT'',
            parsed_flat ''4h'' ''LONG'', parsed_flat ''1d'' ''SHORT'']"
    unfolding four_and_malformed_response_def
    by (simp add: e) (simp add: list_element_signals_def flat_timeframe parse_flat_fields
        normalize_plain)
  have "parse_signal_response no_text_numbers 0 (PDict keyed_fields) ''BTC''
          = Inr (parse_timeframe_keys no_text_numbers 0 ''BTC'' keyed_fields
                 @ concat (map (signals_element_signals no_text_numbers 0 ''BTC'')
                             (signals_elements keyed_fields)))"
    using t ne(2) tft(2) by blast
  then have k: "parse_signal_response no_text_numbers 0 keyed_response ''BTC''
     = Inr [parsed_keyed ''15m'' ''LONG'', parsed_keyed ''4h'' ''SHORT'']"
    unfolding keyed_response_def
    by (simp add: keyed_timeframe_keys keyed_signals_elements e)
      (simp add: signals_element_signals_def flat_timeframe parse_single_flat normalize_plain)
  have q: "parsed_keyed ''15m'' ''LONG''
       \<in> set (parse_timeframe_keys no_text_numbers 0 ''BTC'' keyed_fields)"
    using t key by blast
  show ?thesis
    using a b c k q by (simp add: four_flat_saved [OF d])
qed

end
